theory Spec2Isabelle
  imports Main
begin

section \<open>Pluribus CLI modules \<open>pn_trunk\<close> and \<open>pn_vlag\<close>\<close>

text \<open>
  Both modules have one function, \<open>main\<close>: it reads the module parameters, assembles the
  command line of \<open>/usr/bin/cli\<close> as one string, splits it with \<open>shlex.split\<close>, runs the
  resulting argument vector once and turns the captured streams into the module's reply.
  The model keeps that order: parameters as records, the string assembly as \<open>trunk_build\<close>
  and \<open>vlag_build\<close>, the splitting as \<open>shlex_split\<close>, the reply as \<open>trunk_report\<close> and
  \<open>vlag_report\<close>, and the whole of \<open>main\<close> as \<open>trunk_main\<close> and \<open>vlag_main\<close>.
\<close>

subsection \<open>Python values\<close>

text \<open>Exceptions of the run, as values.\<close>

datatype error =
    ValidationError
  | TypeError
  | NoClosingQuotation
  | NoEscapedCharacter
  | OSError

text \<open>
  \<open>if x:\<close> on an optional string holds when \<open>x\<close> is neither \<open>None\<close> nor the empty
  string; on an optional integer when it is neither \<open>None\<close> nor \<open>0\<close>.
\<close>

definition truthy :: "string option \<Rightarrow> bool" where
  "truthy x = (case x of None \<Rightarrow> False | Some s \<Rightarrow> s \<noteq> [])"

definition truthy_int :: "int option \<Rightarrow> bool" where
  "truthy_int x = (case x of None \<Rightarrow> False | Some n \<Rightarrow> n \<noteq> 0)"

text \<open>\<open>'%s' % x\<close>: a string is copied, \<open>None\<close> is printed as \<open>None\<close>.\<close>

definition py_str :: "string option \<Rightarrow> string" where
  "py_str x = (case x of None \<Rightarrow> ''None'' | Some s \<Rightarrow> s)"

text \<open>\<open>s.rstrip(chars)\<close>: the trailing characters of \<open>s\<close> that occur in \<open>chars\<close> are dropped.\<close>

definition rstrip :: "string \<Rightarrow> string \<Rightarrow> string" where
  "rstrip chars s = rev (dropWhile (\<lambda>c. c \<in> set chars) (rev s))"

definition CR :: char where
  "CR = CHR 0x0D"

definition LF :: char where
  "LF = CHR 0x0A"

definition TAB :: char where
  "TAB = CHR 0x09"

subsection \<open>The reply of a module\<close>

text \<open>
  \<open>module.exit_json(command=..., stderr=..., changed=...)\<close> replies with a dictionary
  from keyword to value.
\<close>

datatype json = JStr string | JBool bool | JInt int

type_synonym report = "string \<rightharpoonup> json"

text \<open>
  What \<open>subprocess.Popen(...)\<close> followed by \<open>communicate()\<close> leaves behind: both
  streams as text and the exit status of the process, which \<open>main\<close> never reads.
\<close>

record exec_result =
  out :: string
  err :: string
  returncode :: int

definition trunk_report :: "string \<Rightarrow> exec_result \<Rightarrow> report" where
  "trunk_report cli res =
     (if err res \<noteq> [] then
        [''command'' \<mapsto> JStr cli,
         ''stderr'' \<mapsto> JStr (rstrip [CR, LF] (err res)),
         ''changed'' \<mapsto> JBool False]
      else
        [''command'' \<mapsto> JStr cli,
         ''stdout'' \<mapsto> JStr (rstrip [CR, LF] (out res)),
         ''changed'' \<mapsto> JBool True])"

definition vlag_report :: "string \<Rightarrow> exec_result \<Rightarrow> report" where
  "vlag_report cli res =
     (if err res \<noteq> [] then
        [''command'' \<mapsto> JStr cli,
         ''stderr'' \<mapsto> JStr (rstrip [CR, LF] (err res)),
         ''rc'' \<mapsto> JInt 1,
         ''changed'' \<mapsto> JBool False]
      else
        [''command'' \<mapsto> JStr cli,
         ''stdout'' \<mapsto> JStr (rstrip [CR, LF] (out res)),
         ''rc'' \<mapsto> JInt 0,
         ''changed'' \<mapsto> JBool True])"

subsection \<open>\<open>shlex.split\<close>\<close>

text \<open>
  \<open>shlex.split(s)\<close> of the Python library, as both modules call it: POSIX mode, no
  comment characters, \<open>whitespace_split\<close> set. The lexer reads one character at a time in
  one of four states: between words (\<open>' '\<close>), inside a word (\<open>'a'\<close>), inside a quotation
  (the quote character) and after a backslash (the state to return to is the library's
  \<open>escapedstate\<close>). A quotation left open and a trailing backslash raise \<open>ValueError\<close>.
\<close>

definition is_whitespace :: "char \<Rightarrow> bool" where
  "is_whitespace c = (c = CHR '' '' \<or> c = TAB \<or> c = CR \<or> c = LF)"

definition is_quote :: "char \<Rightarrow> bool" where
  "is_quote c = (c = CHR 0x27 \<or> c = CHR 0x22)"

definition is_escape :: "char \<Rightarrow> bool" where
  "is_escape c = (c = CHR 0x5C)"

definition is_escapedquote :: "char \<Rightarrow> bool" where
  "is_escapedquote c = (c = CHR 0x22)"

datatype lex_state = InSpace | InWord | InQuote char | InEscape lex_state

fun emit :: "string \<Rightarrow> error + string list \<Rightarrow> error + string list" where
  "emit t (Inl e) = Inl e"
| "emit t (Inr ts) = Inr (t # ts)"

fun read_token :: "lex_state \<Rightarrow> string \<Rightarrow> bool \<Rightarrow> string \<Rightarrow> error + string list" where
  "read_token st token quoted [] =
     (case st of
        InQuote q \<Rightarrow> Inl NoClosingQuotation
      | InEscape s \<Rightarrow> Inl NoEscapedCharacter
      | _ \<Rightarrow> if token \<noteq> [] \<or> quoted then Inr [token] else Inr [])"
| "read_token InSpace token quoted (c # cs) =
     (if is_whitespace c then
        (if token \<noteq> [] \<or> quoted then emit token (read_token InSpace [] False cs)
         else read_token InSpace token quoted cs)
      else if is_escape c then read_token (InEscape InWord) token quoted cs
      else if is_quote c then read_token (InQuote c) token quoted cs
      else read_token InWord [c] quoted cs)"
| "read_token (InQuote q) token quoted (c # cs) =
     (if c = q then read_token InWord token True cs
      else if is_escape c \<and> is_escapedquote q then
        read_token (InEscape (InQuote q)) token True cs
      else read_token (InQuote q) (token @ [c]) True cs)"
| "read_token (InEscape s) token quoted (c # cs) =
     (if (case s of InQuote q \<Rightarrow> \<not> is_escape c \<and> c \<noteq> q | _ \<Rightarrow> False) then
        read_token s (token @ [CHR 0x5C, c]) quoted cs
      else read_token s (token @ [c]) quoted cs)"
| "read_token InWord token quoted (c # cs) =
     (if is_whitespace c then
        (if token \<noteq> [] \<or> quoted then emit token (read_token InSpace [] False cs)
         else read_token InSpace token quoted cs)
      else if is_quote c then read_token (InQuote c) token quoted cs
      else if is_escape c then read_token (InEscape InWord) token quoted cs
      else read_token InWord (token @ [c]) quoted cs)"

definition shlex_split :: "string \<Rightarrow> error + string list" where
  "shlex_split s = read_token InSpace [] False s"

subsection \<open>Module parameters\<close>

text \<open>
  \<open>module.params\<close>, one field per local variable of \<open>main\<close>. A parameter that the playbook
  does not set is \<open>None\<close>. The credentials and the command are always there (the framework
  insists on them and on the command being one of the module's choices); \<open>pn_quiet\<close> has
  the default \<open>True\<close>. The fields that both modules read are the common part.
\<close>

datatype trunk_command = TrunkCreate | TrunkDelete | TrunkModify

datatype vlag_command = VlagCreate | VlagDelete | VlagModify

fun trunk_command_str :: "trunk_command \<Rightarrow> string" where
  "trunk_command_str TrunkCreate = ''trunk-create''"
| "trunk_command_str TrunkDelete = ''trunk-delete''"
| "trunk_command_str TrunkModify = ''trunk-modify''"

fun vlag_command_str :: "vlag_command \<Rightarrow> string" where
  "vlag_command_str VlagCreate = ''vlag-create''"
| "vlag_command_str VlagDelete = ''vlag-delete''"
| "vlag_command_str VlagModify = ''vlag-modify''"

record 'c cli_params =
  cliusername :: string
  clipassword :: string
  cliswitch :: "string option"
  command :: 'c
  name :: "string option"
  quiet :: bool
  lacp_mode :: "string option"
  lacp_timeout :: "string option"
  lacp_fallback :: "string option"
  lacp_fallback_timeout :: "string option"

record trunk_params = "trunk_command cli_params" +
  ports :: "string option"
  speed :: "string option"
  egress_rate_limit :: "string option"
  jumbo :: "bool option"
  lacp_priority :: "int option"
  edge_switch :: "bool option"
  pause :: "bool option"
  description :: "string option"
  loopback :: "bool option"
  mirror_receive :: "bool option"
  unknown_ucast_level :: "string option"
  unknown_mcast_level :: "string option"
  broadcast_level :: "string option"
  port_macaddr :: "string option"
  loopvlans :: "string option"
  routing :: "bool option"
  host :: "bool option"

record vlag_params = "vlag_command cli_params" +
  port :: "string option"
  peer_port :: "string option"
  mode :: "string option"
  peer_switch :: "string option"
  failover_action :: "string option"

subsection \<open>Building the command string\<close>

text \<open>
  \<open>pn_trunk.main\<close>, the lines under \<open># Building the CLI command string\<close>. Each
  \<open>cli += ...\<close> of the source is one binding of \<open>cli\<close>, in the source's order.
  \<open>pn_lacp_priority\<close> is an integer (\<open>type='int'\<close>), and \<open>' lacp-priority ' + lacp_priority\<close>
  adds an integer to a string, which raises \<open>TypeError\<close>.
\<close>

definition trunk_build :: "trunk_params \<Rightarrow> error + string" where
  "trunk_build p =
    (let cli = ''/usr/bin/cli'';
         cli = (if quiet p = True then cli @ '' --quiet '' else cli);
         cli = cli @ '' --user '' @ cliusername p @ '':'' @ clipassword p @ '' '';
         cli = (if truthy (cliswitch p) then
                  cli @ (if cliswitch p = Some ''local'' then '' switch-local ''
                         else '' switch '' @ the (cliswitch p))
                else cli);
         cli = cli @ '' '' @ trunk_command_str (command p) @ '' name '' @ py_str (name p) @ '' '';
         cli = (if truthy (ports p) then cli @ '' ports '' @ the (ports p) else cli);
         cli = (if truthy (speed p) then cli @ '' speed '' @ the (speed p) else cli);
         cli = (if truthy (egress_rate_limit p) then
                  cli @ '' egress-rate-limit '' @ the (egress_rate_limit p)
                else cli);
         cli = (if jumbo p = Some True then cli @ '' jumbo '' else cli);
         cli = (if jumbo p = Some False then cli @ '' no-jumbo '' else cli);
         cli = (if truthy (lacp_mode p) then cli @ '' lacp-mode '' @ the (lacp_mode p) else cli)
     in if truthy_int (lacp_priority p) then Inl TypeError
        else
         (let cli = (if truthy (lacp_timeout p) then
                       cli @ '' lacp-timeout '' @ the (lacp_timeout p)
                     else cli);
              cli = (if truthy (lacp_fallback p) then
                       cli @ '' lacp-fallback '' @ the (lacp_fallback p)
                     else cli);
              cli = (if truthy (lacp_fallback_timeout p) then
                       cli @ '' lacp-fallback-timeout '' @ the (lacp_fallback_timeout p)
                     else cli);
              cli = (if edge_switch p = Some True then cli @ '' edge-switch '' else cli);
              cli = (if edge_switch p = Some False then cli @ '' no-edge-switch '' else cli);
              cli = (if pause p = Some True then cli @ '' pause '' else cli);
              cli = (if pause p = Some False then cli @ '' no-pause '' else cli);
              cli = (if truthy (description p) then
                       cli @ '' description '' @ the (description p)
                     else cli);
              cli = (if loopback p = Some True then cli @ '' loopback '' else cli);
              cli = (if loopback p = Some False then cli @ '' no-loopback '' else cli);
              cli = (if mirror_receive p = Some True then cli @ '' mirror-receive-only ''
                     else cli);
              cli = (if mirror_receive p = Some False then cli @ '' no-mirror-receive-only ''
                     else cli);
              cli = (if truthy (unknown_ucast_level p) then
                       cli @ '' unknown-ucast-level '' @ the (unknown_ucast_level p)
                     else cli);
              cli = (if truthy (unknown_mcast_level p) then
                       cli @ '' unknown-mcast-level '' @ the (unknown_mcast_level p)
                     else cli);
              cli = (if truthy (broadcast_level p) then
                       cli @ '' broadcast-level '' @ the (broadcast_level p)
                     else cli);
              cli = (if truthy (port_macaddr p) then
                       cli @ '' port-mac-address '' @ the (port_macaddr p)
                     else cli);
              cli = (if truthy (loopvlans p) then cli @ '' loopvlans '' @ the (loopvlans p)
                     else cli);
              cli = (if routing p = Some True then cli @ '' routing '' else cli);
              cli = (if routing p = Some False then cli @ '' no-routing '' else cli);
              cli = (if host p = Some True then cli @ '' host-enable '' else cli);
              cli = (if host p = Some False then cli @ '' host-disable '' else cli)
          in Inr cli))"

text \<open>
  \<open>pn_vlag.main\<close>, the same part. The name is added with \<open>+\<close>, so a name of \<open>None\<close>
  would raise \<open>TypeError\<close> here, where \<open>pn_trunk\<close> formats it with \<open>%s\<close>.
\<close>

definition vlag_build :: "vlag_params \<Rightarrow> error + string" where
  "vlag_build p =
    (let cli = (if quiet p = True then
                  ''/usr/bin/cli --quiet --user '' @ cliusername p @ '':'' @ clipassword p @ '' ''
                else ''/usr/bin/cli --user '' @ cliusername p @ '':'' @ clipassword p @ '' '');
         cli = (if truthy (cliswitch p) then cli @ '' switch '' @ the (cliswitch p) else cli)
     in case name p of
          None \<Rightarrow> Inl TypeError
        | Some n \<Rightarrow>
           (let cli = cli @ '' '' @ vlag_command_str (command p) @ '' name '' @ n;
                cli = (if truthy (port p) then cli @ '' port '' @ the (port p) else cli);
                cli = (if truthy (peer_port p) then cli @ '' peer-port '' @ the (peer_port p)
                       else cli);
                cli = (if truthy (mode p) then cli @ '' mode '' @ the (mode p) else cli);
                cli = (if truthy (peer_switch p) then
                         cli @ '' peer-switch'' @ the (peer_switch p)
                       else cli);
                cli = (if truthy (failover_action p) then
                         cli @ '' failover-'' @ the (failover_action p) @ ''-L2 ''
                       else cli);
                cli = (if truthy (lacp_mode p) then cli @ '' lacp-mode '' @ the (lacp_mode p)
                       else cli);
                cli = (if truthy (lacp_timeout p) then
                         cli @ '' lacp-timeout '' @ the (lacp_timeout p)
                       else cli);
                cli = (if truthy (lacp_fallback p) then
                         cli @ '' lacp-fallback '' @ the (lacp_fallback p)
                       else cli);
                cli = (if truthy (lacp_fallback_timeout p) then
                         cli @ '' lacp-fallback-timeout '' @ the (lacp_fallback_timeout p)
                       else cli)
            in Inr cli))"

subsection \<open>Validation of the parameters\<close>

text \<open>
  Modelled from the spec: the enforcement of \<open>required=True\<close>, \<open>required_if\<close> and
  \<open>choices\<close>, which is done by the framework's \<open>AnsibleModule\<close> (not part of the
  repository) when \<open>main\<close> creates the module, before it reads a parameter. The spec: a
  required field for the requested operation kind that is missing is rejected before any
  subprocess launch, and the enum constraints are enforced by the caller. The tables are
  the \<open>required_if\<close> and \<open>choices\<close> arguments that the two modules declare: for each
  command the parameters that must be set, and for each parameter with choices the values
  it may have when it is set. (\<open>pn_command\<close> has choices too; its type has exactly
  them.)
\<close>

definition trunk_required_if :: "(trunk_command \<times> (trunk_params \<Rightarrow> bool) list) list" where
  "trunk_required_if =
     [(TrunkCreate, [\<lambda>p. name p \<noteq> None, \<lambda>p. ports p \<noteq> None]),
      (TrunkDelete, [\<lambda>p. name p \<noteq> None]),
      (TrunkModify, [\<lambda>p. name p \<noteq> None])]"

definition vlag_required_if :: "(vlag_command \<times> (vlag_params \<Rightarrow> bool) list) list" where
  "vlag_required_if =
     [(VlagCreate, [\<lambda>p. name p \<noteq> None, \<lambda>p. port p \<noteq> None, \<lambda>p. peer_port p \<noteq> None]),
      (VlagDelete, [\<lambda>p. name p \<noteq> None]),
      (VlagModify, [\<lambda>p. name p \<noteq> None])]"

definition check_required_if :: "('c \<times> ('p \<Rightarrow> bool) list) list \<Rightarrow> 'c \<Rightarrow> 'p \<Rightarrow> bool" where
  "check_required_if spec cmd p =
     list_all (\<lambda>(c, reqs). if c = cmd then list_all (\<lambda>present. present p) reqs else True) spec"

definition trunk_choices :: "((trunk_params \<Rightarrow> string option) \<times> string list) list" where
  "trunk_choices =
     [(speed, [''disable'', ''10m'', ''100m'', ''1g'', ''2.5g'', ''10g'', ''40g'']),
      (lacp_mode, [''off'', ''passive'', ''active'']),
      (lacp_fallback, [''bundle'', ''individual''])]"

definition vlag_choices :: "((vlag_params \<Rightarrow> string option) \<times> string list) list" where
  "vlag_choices =
     [(mode, [''active-standby'', ''active-active'']),
      (failover_action, [''move'', ''ignore'']),
      (lacp_mode, [''off'', ''passive'', ''active'']),
      (lacp_timeout, [''slow'', ''fast'']),
      (lacp_fallback, [''individual'', ''bundled''])]"

definition check_choices :: "(('p \<Rightarrow> string option) \<times> string list) list \<Rightarrow> 'p \<Rightarrow> bool" where
  "check_choices spec p =
     list_all (\<lambda>(param, choices).
       case param p of None \<Rightarrow> True | Some v \<Rightarrow> List.member choices v) spec"

subsection \<open>The whole of \<open>main\<close>\<close>

text \<open>
  The process primitive is a parameter: \<open>popen cmd\<close> is what \<open>subprocess.Popen(cmd, ...)\<close>
  and \<open>communicate()\<close> leave behind, or the exception that \<open>Popen\<close> raises when the
  executable cannot be started (\<open>OSError\<close>). The second component of the result lists
  the argument vectors that were handed to \<open>Popen\<close>, in order. A request that the
  framework refuses and an exception while the command is built or split end \<open>main\<close>
  before \<open>Popen\<close> is called; an exception of \<open>Popen\<close> ends it without a reply.
\<close>

type_synonym invoker = "string list \<Rightarrow> error + exec_result"

definition trunk_main :: "invoker \<Rightarrow> trunk_params \<Rightarrow> (error + report) \<times> string list list" where
  "trunk_main popen p =
     (if \<not> (check_choices trunk_choices p \<and>
             check_required_if trunk_required_if (command p) p)
      then (Inl ValidationError, [])
      else
        (case trunk_build p of
           Inl e \<Rightarrow> (Inl e, [])
         | Inr cli \<Rightarrow>
            (case shlex_split cli of
               Inl e \<Rightarrow> (Inl e, [])
             | Inr trunkcmd \<Rightarrow>
                (case popen trunkcmd of
                   Inl e \<Rightarrow> (Inl e, [trunkcmd])
                 | Inr res \<Rightarrow> (Inr (trunk_report cli res), [trunkcmd])))))"

definition vlag_main :: "invoker \<Rightarrow> vlag_params \<Rightarrow> (error + report) \<times> string list list" where
  "vlag_main popen p =
     (if \<not> (check_choices vlag_choices p \<and>
             check_required_if vlag_required_if (command p) p)
      then (Inl ValidationError, [])
      else
        (case vlag_build p of
           Inl e \<Rightarrow> (Inl e, [])
         | Inr cli \<Rightarrow>
            (case shlex_split cli of
               Inl e \<Rightarrow> (Inl e, [])
             | Inr vlagcmd \<Rightarrow>
                (case popen vlagcmd of
                   Inl e \<Rightarrow> (Inl e, [vlagcmd])
                 | Inr res \<Rightarrow> (Inr (vlag_report cli res), [vlagcmd])))))"

subsection \<open>Words, pieces and argument vectors\<close>

text \<open>
  Vocabulary for the statements below. A character is plain when the lexer treats it as
  an ordinary character of a word: no whitespace, no quote, no backslash. A value is
  plain when all its characters are; a plain value that is not empty is one shell word.
\<close>

definition plain_char :: "char \<Rightarrow> bool" where
  "plain_char c = (\<not> is_whitespace c \<and> \<not> is_quote c \<and> \<not> is_escape c)"

definition plain :: "string \<Rightarrow> bool" where
  "plain s = list_all plain_char s"

definition plain_opt :: "string option \<Rightarrow> bool" where
  "plain_opt v = (case v of None \<Rightarrow> True | Some s \<Rightarrow> plain s)"

definition word :: "string \<Rightarrow> string list" where
  "word s = (if s = [] then [] else [s])"

text \<open>
  A string \<open>s\<close> lexes to the words \<open>ts\<close> when the lexer, started between words in front of
  \<open>s\<close>, delivers \<open>ts\<close> and is between words again, whatever follows \<open>s\<close>, as long as what
  follows is nothing or starts with a blank.
\<close>

fun prepend :: "string list \<Rightarrow> error + string list \<Rightarrow> error + string list" where
  "prepend ts (Inl e) = Inl e"
| "prepend ts (Inr us) = Inr (ts @ us)"

definition sep :: "string \<Rightarrow> bool" where
  "sep s = (case s of [] \<Rightarrow> True | c # _ \<Rightarrow> c = CHR '' '')"

definition lexes :: "string \<Rightarrow> string list \<Rightarrow> bool" where
  "lexes s ts = (\<forall>rest. sep rest \<longrightarrow>
     read_token InSpace [] False (s @ rest) = prepend ts (read_token InSpace [] False rest))"

text \<open>
  The command string in pieces, one piece for each \<open>cli += ...\<close> of the source: the words
  that the statement adds, each after one blank, and whether a blank follows the last
  word. A statement that is skipped adds the empty piece. \<open>trunk_pieces\<close> and
  \<open>vlag_pieces\<close> list the pieces of the two modules in the order of the source;
  \<open>trunk_build_pieces\<close> and \<open>vlag_build_pieces\<close> below show that the strings built by
  \<open>trunk_build\<close> and \<open>vlag_build\<close> are exactly these pieces after \<open>/usr/bin/cli\<close>.
\<close>

type_synonym piece = "string list \<times> bool"

definition spaced :: "string list \<Rightarrow> string" where
  "spaced ws = concat (map (\<lambda>w. CHR '' '' # w) ws)"

definition render :: "piece \<Rightarrow> string" where
  "render pc = spaced (fst pc) @ (if snd pc then '' '' else [])"

definition piece_words :: "piece \<Rightarrow> string list" where
  "piece_words pc = concat (map word (fst pc))"

definition absent :: piece where
  "absent = ([], False)"

definition opt_arg :: "string \<Rightarrow> string option \<Rightarrow> piece" where
  "opt_arg tok v = (if truthy v then ([tok, the v], False) else absent)"

definition opt_flag :: "string \<Rightarrow> bool \<Rightarrow> bool option \<Rightarrow> piece" where
  "opt_flag tok b v = (if v = Some b then ([tok], True) else absent)"

definition trunk_pieces :: "trunk_params \<Rightarrow> piece list" where
  "trunk_pieces p =
     [(if quiet p then ([''--quiet''], True) else absent),
      ([''--user'', cliusername p @ '':'' @ clipassword p], True),
      (if truthy (cliswitch p) then
         (if cliswitch p = Some ''local'' then ([''switch-local''], True)
          else ([''switch'', the (cliswitch p)], False))
       else absent),
      ([trunk_command_str (command p), ''name'', py_str (name p)], True),
      opt_arg ''ports'' (ports p),
      opt_arg ''speed'' (speed p),
      opt_arg ''egress-rate-limit'' (egress_rate_limit p),
      opt_flag ''jumbo'' True (jumbo p),
      opt_flag ''no-jumbo'' False (jumbo p),
      opt_arg ''lacp-mode'' (lacp_mode p),
      opt_arg ''lacp-timeout'' (lacp_timeout p),
      opt_arg ''lacp-fallback'' (lacp_fallback p),
      opt_arg ''lacp-fallback-timeout'' (lacp_fallback_timeout p),
      opt_flag ''edge-switch'' True (edge_switch p),
      opt_flag ''no-edge-switch'' False (edge_switch p),
      opt_flag ''pause'' True (pause p),
      opt_flag ''no-pause'' False (pause p),
      opt_arg ''description'' (description p),
      opt_flag ''loopback'' True (loopback p),
      opt_flag ''no-loopback'' False (loopback p),
      opt_flag ''mirror-receive-only'' True (mirror_receive p),
      opt_flag ''no-mirror-receive-only'' False (mirror_receive p),
      opt_arg ''unknown-ucast-level'' (unknown_ucast_level p),
      opt_arg ''unknown-mcast-level'' (unknown_mcast_level p),
      opt_arg ''broadcast-level'' (broadcast_level p),
      opt_arg ''port-mac-address'' (port_macaddr p),
      opt_arg ''loopvlans'' (loopvlans p),
      opt_flag ''routing'' True (routing p),
      opt_flag ''no-routing'' False (routing p),
      opt_flag ''host-enable'' True (host p),
      opt_flag ''host-disable'' False (host p)]"

definition vlag_pieces :: "vlag_params \<Rightarrow> piece list" where
  "vlag_pieces p =
     [(if quiet p then ([''--quiet'', ''--user'', cliusername p @ '':'' @ clipassword p], True)
       else ([''--user'', cliusername p @ '':'' @ clipassword p], True)),
      opt_arg ''switch'' (cliswitch p),
      ([vlag_command_str (command p), ''name'', py_str (name p)], False),
      opt_arg ''port'' (port p),
      opt_arg ''peer-port'' (peer_port p),
      opt_arg ''mode'' (mode p),
      (if truthy (peer_switch p) then ([''peer-switch'' @ the (peer_switch p)], False)
       else absent),
      (if truthy (failover_action p) then
         ([''failover-'' @ the (failover_action p) @ ''-L2''], True)
       else absent),
      opt_arg ''lacp-mode'' (lacp_mode p),
      opt_arg ''lacp-timeout'' (lacp_timeout p),
      opt_arg ''lacp-fallback'' (lacp_fallback p),
      opt_arg ''lacp-fallback-timeout'' (lacp_fallback_timeout p)]"

definition command_line :: "piece list \<Rightarrow> string" where
  "command_line pcs = ''/usr/bin/cli'' @ concat (map render pcs)"

definition argv :: "piece list \<Rightarrow> string list" where
  "argv pcs = ''/usr/bin/cli'' # concat (map piece_words pcs)"

text \<open>
  A request is plain when the credentials and every string value that is set are plain.
\<close>

definition trunk_plain :: "trunk_params \<Rightarrow> bool" where
  "trunk_plain p =
     (plain (cliusername p) \<and> plain (clipassword p) \<and> plain_opt (cliswitch p) \<and>
      plain_opt (name p) \<and> plain_opt (ports p) \<and> plain_opt (speed p) \<and>
      plain_opt (egress_rate_limit p) \<and> plain_opt (lacp_mode p) \<and>
      plain_opt (lacp_timeout p) \<and> plain_opt (lacp_fallback p) \<and>
      plain_opt (lacp_fallback_timeout p) \<and> plain_opt (description p) \<and>
      plain_opt (unknown_ucast_level p) \<and> plain_opt (unknown_mcast_level p) \<and>
      plain_opt (broadcast_level p) \<and> plain_opt (port_macaddr p) \<and>
      plain_opt (loopvlans p))"

definition vlag_plain :: "vlag_params \<Rightarrow> bool" where
  "vlag_plain p =
     (plain (cliusername p) \<and> plain (clipassword p) \<and> plain_opt (cliswitch p) \<and>
      plain_opt (name p) \<and> plain_opt (port p) \<and> plain_opt (peer_port p) \<and>
      plain_opt (mode p) \<and> plain_opt (peer_switch p) \<and> plain_opt (failover_action p) \<and>
      plain_opt (lacp_mode p) \<and> plain_opt (lacp_timeout p) \<and> plain_opt (lacp_fallback p) \<and>
      plain_opt (lacp_fallback_timeout p))"

text \<open>
  The argument vector that \<open>main\<close> hands to \<open>subprocess.Popen\<close>: the command string,
  split.
\<close>

definition trunkcmd :: "trunk_params \<Rightarrow> error + string list" where
  "trunkcmd p = (case trunk_build p of Inl e \<Rightarrow> Inl e | Inr cli \<Rightarrow> shlex_split cli)"

definition vlagcmd :: "vlag_params \<Rightarrow> error + string list" where
  "vlagcmd p = (case vlag_build p of Inl e \<Rightarrow> Inl e | Inr cli \<Rightarrow> shlex_split cli)"

text \<open>
  The rendering of a three-valued flag in the words of the specification: one text when
  the value is true, another when it is false, nothing when it is absent.
\<close>

definition tri_state :: "'a list \<Rightarrow> 'a list \<Rightarrow> bool option \<Rightarrow> 'a list" where
  "tri_state t f v = (case v of None \<Rightarrow> [] | Some b \<Rightarrow> if b then t else f)"

text \<open>
  A \<open>trunk-create\<close> request that sets the name and the ports and nothing else:
  \<open>pn_quiet\<close> at its default, no switch.
\<close>

definition trunk_create_request :: "string \<Rightarrow> string \<Rightarrow> string \<Rightarrow> string \<Rightarrow> trunk_params" where
  "trunk_create_request user password n ps =
     \<lparr>cliusername = user, clipassword = password, cliswitch = None,
      command = TrunkCreate, name = Some n, quiet = True,
      lacp_mode = None, lacp_timeout = None, lacp_fallback = None,
      lacp_fallback_timeout = None,
      ports = Some ps, speed = None, egress_rate_limit = None, jumbo = None,
      lacp_priority = None, edge_switch = None, pause = None, description = None,
      loopback = None, mirror_receive = None, unknown_ucast_level = None,
      unknown_mcast_level = None, broadcast_level = None, port_macaddr = None,
      loopvlans = None, routing = None, host = None\<rparr>"

text \<open>The two entries of the modules' \<open>EXAMPLES\<close> that create an object.\<close>

definition example_trunk :: trunk_params where
  "example_trunk = trunk_create_request ''admin'' ''admin'' ''spine-to-leaf'' ''11,12,13,14''"

definition example_vlag :: vlag_params where
  "example_vlag =
     \<lparr>cliusername = ''admin'', clipassword = ''admin'', cliswitch = None,
      command = VlagCreate, name = Some ''spine-to-leaf'', quiet = True,
      lacp_mode = None, lacp_timeout = None, lacp_fallback = None,
      lacp_fallback_timeout = None,
      port = Some ''spine01-to-leaf'', peer_port = Some ''spine02-to-leaf'',
      mode = Some ''active-active'', peer_switch = Some ''spine02'',
      failover_action = None\<rparr>"

text \<open>A process that prints \<open>ok\<close> and exits with status \<open>0\<close>, whatever it is given.\<close>

definition popen_ok :: invoker where
  "popen_ok cmd = Inr \<lparr>out = ''ok'' @ [LF], err = [], returncode = 0\<rparr>"

section \<open>Properties\<close>

subsection \<open>The reply\<close>

text \<open>
  What \<open>rstrip\<close> leaves: the text is the result followed by dropped characters only,
  and the result does not end in one of them.
\<close>

lemma rstrip_decompose:
  "\<exists>t. s = rstrip chars s @ t \<and> list_all (\<lambda>c. c \<in> set chars) t"
proof -
  let ?P = "\<lambda>c. c \<in> set chars"
  have "rev s = takeWhile ?P (rev s) @ dropWhile ?P (rev s)"
    by simp
  then have "s = rev (dropWhile ?P (rev s)) @ rev (takeWhile ?P (rev s))"
    by (metis rev_append rev_rev_ident)
  moreover have "list_all ?P (rev (takeWhile ?P (rev s)))"
    by (simp add: list_all_iff) (meson set_takeWhileD)
  ultimately show ?thesis
    unfolding rstrip_def by blast
qed

lemma rstrip_last:
  "rstrip chars s \<noteq> [] \<Longrightarrow> last (rstrip chars s) \<notin> set chars"
proof -
  assume ne: "rstrip chars s \<noteq> []"
  let ?d = "dropWhile (\<lambda>c. c \<in> set chars) (rev s)"
  from ne have d: "?d \<noteq> []"
    by (simp add: rstrip_def)
  then have "hd ?d \<notin> set chars"
    by (rule hd_dropWhile)
  with d show ?thesis
    by (simp add: rstrip_def last_rev)
qed

subsection \<open>The lexer on plain words\<close>

lemma prepend_Nil [simp]: "prepend [] r = r"
  by (cases r) simp_all

lemma prepend_prepend [simp]: "prepend ts (prepend us r) = prepend (ts @ us) r"
  by (cases r) simp_all

lemma emit_prepend: "emit t r = prepend [t] r"
  by (cases r) simp_all

lemma read_word_plain:
  "plain w \<Longrightarrow> read_token InWord t q (w @ rest) = read_token InWord (t @ w) q rest"
  by (induction w arbitrary: t) (simp_all add: plain_def plain_char_def)

lemma read_space_plain:
  assumes "plain w" "w \<noteq> []"
  shows "read_token InSpace [] False (w @ rest) = read_token InWord w False rest"
proof (cases w)
  case Nil
  with assms show ?thesis by simp
next
  case (Cons c cs)
  with assms have c: "plain_char c" and cs: "plain cs"
    by (simp_all add: plain_def)
  from c have "read_token InSpace [] False (c # cs @ rest) = read_token InWord [c] False (cs @ rest)"
    by (simp add: plain_char_def)
  with cs Cons show ?thesis
    by (simp add: read_word_plain)
qed

lemma space_is_whitespace [simp]: "is_whitespace (CHR '' '')"
  by (simp add: is_whitespace_def)

lemma lexes_Nil: "lexes [] []"
  by (simp add: lexes_def)

lemma lexes_space: "lexes s ts \<Longrightarrow> lexes (CHR '' '' # s) ts"
  by (simp add: lexes_def)

lemma lexes_append:
  assumes a: "lexes a ta" and b: "lexes b tb" and s: "sep b"
  shows "lexes (a @ b) (ta @ tb)"
  unfolding lexes_def
proof (intro allI impI)
  fix rest assume r: "sep rest"
  have "sep (b @ rest)" using s r by (cases b) (auto simp: sep_def)
  with a have "read_token InSpace [] False (a @ b @ rest) = prepend ta (read_token InSpace [] False (b @ rest))"
    by (simp add: lexes_def)
  also have "\<dots> = prepend ta (prepend tb (read_token InSpace [] False rest))"
    using b r by (simp add: lexes_def)
  finally show "read_token InSpace [] False ((a @ b) @ rest) = prepend (ta @ tb) (read_token InSpace [] False rest)"
    by simp
qed

lemma lexes_plain: assumes "plain s" shows "lexes s (word s)"
proof (cases "s = []")
  case True then show ?thesis by (simp add: word_def lexes_Nil)
next
  case False
  show ?thesis unfolding lexes_def
  proof (intro allI impI)
    fix rest assume r: "sep rest"
    show "read_token InSpace [] False (s @ rest) = prepend (word s) (read_token InSpace [] False rest)"
    proof (cases rest)
      case Nil
      with assms False show ?thesis by (simp add: read_space_plain[where rest="[]", simplified] word_def)
    next
      case (Cons c cs)
      with r have "c = CHR '' ''" by (simp add: sep_def)
      with Cons assms False show ?thesis
        by (simp add: read_space_plain word_def emit_prepend)
    qed
  qed
qed

lemma lexes_shlex:
  assumes "lexes s ts"
  shows "shlex_split s = Inr ts"
proof -
  from assms have "sep [] \<longrightarrow>
      read_token InSpace [] False (s @ []) = prepend ts (read_token InSpace [] False [])"
    unfolding lexes_def by blast
  then show ?thesis by (simp add: shlex_split_def sep_def)
qed

lemma sep_spaced: "sep (spaced ws)"
  by (cases ws) (simp_all add: spaced_def sep_def)

lemma lexes_spaced: "list_all plain ws \<Longrightarrow> lexes (spaced ws) (concat (map word ws))"
proof (induction ws)
  case Nil
  show ?case by (simp add: spaced_def lexes_Nil)
next
  case (Cons w ws)
  then have "lexes (w @ spaced ws) (word w @ concat (map word ws))"
    by (intro lexes_append lexes_plain sep_spaced) simp_all
  then have "lexes (CHR '' '' # w @ spaced ws) (word w @ concat (map word ws))"
    by (rule lexes_space)
  then show ?case by (simp add: spaced_def)
qed

lemma sep_render: "sep (render pc)"
  by (cases "fst pc") (simp_all add: render_def spaced_def sep_def)

lemma lexes_render:
  assumes "list_all plain (fst pc)"
  shows "lexes (render pc) (piece_words pc)"
proof -
  have "lexes (if snd pc then '' '' else []) []"
    by (simp add: lexes_Nil lexes_space)
  moreover have "sep (if snd pc then '' '' else [])"
    by (simp add: sep_def)
  ultimately have "lexes (spaced (fst pc) @ (if snd pc then '' '' else []))
      (concat (map word (fst pc)) @ [])"
    using assms by (intro lexes_append lexes_spaced)
  then show ?thesis by (simp add: render_def piece_words_def)
qed

lemma sep_pieces: "sep (concat (map render pcs))"
proof (induction pcs)
  case Nil
  show ?case by (simp add: sep_def)
next
  case (Cons pc pcs)
  with sep_render[of pc] show ?case
    by (cases "render pc") (simp_all add: sep_def)
qed

lemma lexes_pieces:
  "list_all (\<lambda>pc. list_all plain (fst pc)) pcs \<Longrightarrow>
     lexes (concat (map render pcs)) (concat (map piece_words pcs))"
proof (induction pcs)
  case Nil
  show ?case by (simp add: lexes_Nil)
next
  case (Cons pc pcs)
  then have "lexes (render pc @ concat (map render pcs))
      (piece_words pc @ concat (map piece_words pcs))"
    by (intro lexes_append lexes_render sep_pieces) simp_all
  then show ?case by simp
qed

lemma plain_Nil: "plain []"
  by (simp add: plain_def)

lemma plain_Cons: "plain (c # s) = (plain_char c \<and> plain s)"
  by (simp add: plain_def)

lemma plain_append: "plain (a @ b) = (plain a \<and> plain b)"
  by (simp add: plain_def)

lemmas plain_simps = plain_Nil plain_Cons plain_append plain_char_def is_whitespace_def
  is_quote_def is_escape_def TAB_def CR_def LF_def

lemma shlex_command_line:
  assumes "list_all (\<lambda>pc. list_all plain (fst pc)) pcs"
  shows "shlex_split (command_line pcs) = Inr (argv pcs)"
proof -
  have "plain ''/usr/bin/cli''"
    by (simp add: plain_simps)
  then have "lexes (''/usr/bin/cli'' @ concat (map render pcs))
      (word ''/usr/bin/cli'' @ concat (map piece_words pcs))"
    using assms by (intro lexes_append lexes_plain lexes_pieces sep_pieces)
  then have "shlex_split (''/usr/bin/cli'' @ concat (map render pcs)) =
      Inr (word ''/usr/bin/cli'' @ concat (map piece_words pcs))"
    by (rule lexes_shlex)
  then show ?thesis
    by (simp add: command_line_def argv_def word_def)
qed

lemma plain_trunk_command: "plain (trunk_command_str c)"
  by (cases c) (simp_all add: plain_simps)

lemma plain_vlag_command: "plain (vlag_command_str c)"
  by (cases c) (simp_all add: plain_simps)

lemma plain_opt_arg: "plain tok \<Longrightarrow> plain_opt v \<Longrightarrow> list_all plain (fst (opt_arg tok v))"
  by (cases v) (simp_all add: opt_arg_def absent_def plain_opt_def truthy_def)

lemma plain_opt_flag: "plain tok \<Longrightarrow> list_all plain (fst (opt_flag tok b v))"
  by (simp add: opt_flag_def absent_def)

lemma plain_py_str: "plain_opt v \<Longrightarrow> plain (py_str v)"
  by (cases v) (simp_all add: plain_opt_def py_str_def plain_simps)

lemma plain_the: "plain_opt v \<Longrightarrow> truthy v \<Longrightarrow> plain (the v)"
  by (cases v) (simp_all add: plain_opt_def truthy_def)

lemma if_append: "(if c then x @ s else x) = x @ (if c then s else [])"
  by simp

lemma render_opt_arg:
  "render (opt_arg tok v) = (if truthy v then CHR '' '' # tok @ CHR '' '' # the v else [])"
  by (simp add: render_def spaced_def opt_arg_def absent_def)

lemma render_opt_flag:
  "render (opt_flag tok b v) = (if v = Some b then CHR '' '' # tok @ '' '' else [])"
  by (simp add: render_def spaced_def opt_flag_def absent_def)

lemma render_absent: "render absent = []"
  by (simp add: render_def spaced_def absent_def)

lemma render_Pair: "render (ws, t) = spaced ws @ (if t then '' '' else [])"
  by (simp add: render_def)

lemma spaced_simps: "spaced [] = []" "spaced (w # ws) = CHR '' '' # w @ spaced ws"
  by (simp_all add: spaced_def)

lemmas render_simps = render_opt_arg render_opt_flag render_absent render_Pair spaced_simps
  if_distrib[of render]

lemma trunk_build_pieces:
  "trunk_build p =
     (if truthy_int (lacp_priority p) then Inl TypeError
      else Inr (command_line (trunk_pieces p)))"
  by (simp add: trunk_build_def trunk_pieces_def command_line_def render_simps Let_def
      if_append split del: if_split cong: if_cong)

lemma vlag_build_pieces:
  "vlag_build p =
     (case name p of None \<Rightarrow> Inl TypeError | Some n \<Rightarrow> Inr (command_line (vlag_pieces p)))"
  by (cases "name p"; cases "quiet p")
     (simp_all add: vlag_build_def vlag_pieces_def command_line_def render_simps py_str_def
      Let_def if_append split del: if_split cong: if_cong)

lemma trunk_pieces_plain:
  "trunk_plain p \<Longrightarrow> list_all (\<lambda>pc. list_all plain (fst pc)) (trunk_pieces p)"
  by (simp add: trunk_plain_def trunk_pieces_def plain_opt_arg plain_opt_flag
      plain_trunk_command plain_py_str plain_the plain_simps absent_def)

lemma vlag_pieces_plain:
  "vlag_plain p \<Longrightarrow> list_all (\<lambda>pc. list_all plain (fst pc)) (vlag_pieces p)"
  by (simp add: vlag_plain_def vlag_pieces_def plain_opt_arg plain_opt_flag
      plain_vlag_command plain_py_str plain_the plain_simps absent_def)

subsection \<open>Success and failure of the reply\<close>

text \<open>
  C1 (as amended). The reply is the failure reply exactly when the captured standard
  error is non-empty as captured, before any trimming, whatever the exit status: it then
  carries the command string, the standard error with its trailing line terminators
  dropped, and \<open>changed = False\<close> (and \<open>rc = 1\<close> for \<open>pn_vlag\<close>). Otherwise it is the success
  reply with the command string, the trimmed standard output and \<open>changed = True\<close> (and
  \<open>rc = 0\<close> for \<open>pn_vlag\<close>).
\<close>

theorem report_decided_by_raw_stderr:
  "trunk_report cli \<lparr>out = so, err = se, returncode = rc\<rparr> =
     (if se \<noteq> [] then
        [''command'' \<mapsto> JStr cli, ''stderr'' \<mapsto> JStr (rstrip [CR, LF] se),
         ''changed'' \<mapsto> JBool False]
      else
        [''command'' \<mapsto> JStr cli, ''stdout'' \<mapsto> JStr (rstrip [CR, LF] so),
         ''changed'' \<mapsto> JBool True]) \<and>
   vlag_report cli \<lparr>out = so, err = se, returncode = rc\<rparr> =
     (if se \<noteq> [] then
        [''command'' \<mapsto> JStr cli, ''stderr'' \<mapsto> JStr (rstrip [CR, LF] se),
         ''rc'' \<mapsto> JInt 1, ''changed'' \<mapsto> JBool False]
      else
        [''command'' \<mapsto> JStr cli, ''stdout'' \<mapsto> JStr (rstrip [CR, LF] so),
         ''rc'' \<mapsto> JInt 0, ''changed'' \<mapsto> JBool True])"
  by (simp add: trunk_report_def vlag_report_def)

text \<open>
  C1 as stated fails: a standard error of one line feed is empty after trimming, and the
  reply is the failure reply all the same, with an empty \<open>stderr\<close>.
\<close>

theorem report_trimmed_stderr_counterexample:
  "rstrip [CR, LF] [LF] = [] \<and>
   trunk_report ''/usr/bin/cli'' \<lparr>out = ''ok'', err = [LF], returncode = 0\<rparr> =
     [''command'' \<mapsto> JStr ''/usr/bin/cli'', ''stderr'' \<mapsto> JStr [],
      ''changed'' \<mapsto> JBool False] \<and>
   vlag_report ''/usr/bin/cli'' \<lparr>out = ''ok'', err = [LF], returncode = 0\<rparr> =
     [''command'' \<mapsto> JStr ''/usr/bin/cli'', ''stderr'' \<mapsto> JStr [],
      ''rc'' \<mapsto> JInt 1, ''changed'' \<mapsto> JBool False]"
  by (simp add: trunk_report_def vlag_report_def rstrip_def LF_def CR_def)

subsection \<open>The command, field by field\<close>

lemma piece_words_opt_arg:
  "piece_words (opt_arg tok v) = (if truthy v then word tok @ word (the v) else [])"
  by (simp add: piece_words_def opt_arg_def absent_def)

lemma piece_words_opt_flag:
  "piece_words (opt_flag tok b v) = (if v = Some b then word tok else [])"
  by (simp add: piece_words_def opt_flag_def absent_def)

lemma piece_words_absent: "piece_words absent = []"
  by (simp add: piece_words_def absent_def)

lemma piece_words_Pair: "piece_words (ws, t) = concat (map word ws)"
  by (simp add: piece_words_def)

lemmas piece_words_simps = piece_words_opt_arg piece_words_opt_flag piece_words_absent
  piece_words_Pair if_distrib[of piece_words]

lemma command_line_append:
  "command_line (A @ B) = command_line A @ concat (map render B)"
  by (simp add: command_line_def)

lemma argv_append: "argv (A @ B) = argv A @ concat (map piece_words B)"
  by (simp add: argv_def)

lemma trunkcmd_plain:
  assumes "trunk_plain p" "\<not> truthy_int (lacp_priority p)"
  shows "trunkcmd p = Inr (argv (trunk_pieces p))"
  using assms
  by (simp add: trunkcmd_def trunk_build_pieces shlex_command_line trunk_pieces_plain)

lemma vlagcmd_plain:
  assumes "vlag_plain p" "name p = Some n"
  shows "vlagcmd p = Inr (argv (vlag_pieces p))"
  using assms
  by (simp add: vlagcmd_def vlag_build_pieces shlex_command_line vlag_pieces_plain)

lemma tri_state_text:
  assumes "\<And>v. pcs v = A @ [opt_flag t True v, opt_flag f False v] @ B"
  shows "\<exists>a b. \<forall>v. command_line (pcs v) =
           a @ tri_state (CHR '' '' # t @ '' '') (CHR '' '' # f @ '' '') v @ b"
proof (intro exI allI)
  fix v
  show "command_line (pcs v) =
      command_line A @ tri_state (CHR '' '' # t @ '' '') (CHR '' '' # f @ '' '') v @
      concat (map render B)"
    by (cases v) (simp_all add: assms command_line_append render_opt_flag tri_state_def)
qed

lemma tri_state_words:
  assumes "\<And>v. pcs v = A @ [opt_flag t True v, opt_flag f False v] @ B" "t \<noteq> []" "f \<noteq> []"
  shows "\<exists>X Y. \<forall>v. argv (pcs v) = X @ tri_state [t] [f] v @ Y"
proof (intro exI allI)
  fix v
  show "argv (pcs v) = argv A @ tri_state [t] [f] v @ concat (map piece_words B)"
    using assms(2,3)
    by (cases v) (simp_all add: assms(1) argv_append piece_words_opt_flag tri_state_def word_def)
qed

lemma trunk_flag_text:
  assumes "\<And>v. trunk_pieces (upd v) = A @ [opt_flag t True v, opt_flag f False v] @ B"
    and "\<And>v. lacp_priority (upd v) = lacp_priority p"
    and "\<not> truthy_int (lacp_priority p)"
  shows "\<exists>a b. \<forall>v. trunk_build (upd v) =
           Inr (a @ tri_state (CHR '' '' # t @ '' '') (CHR '' '' # f @ '' '') v @ b)"
proof -
  from tri_state_text[of "\<lambda>v. trunk_pieces (upd v)" A t f B] assms(1)
  obtain a b where "\<forall>v. command_line (trunk_pieces (upd v)) =
      a @ tri_state (CHR '' '' # t @ '' '') (CHR '' '' # f @ '' '') v @ b"
    by blast
  with assms(2,3) show ?thesis
    by (simp add: trunk_build_pieces) blast
qed

lemma trunk_flag_words:
  assumes "\<And>v. trunk_pieces (upd v) = A @ [opt_flag t True v, opt_flag f False v] @ B"
    and "\<And>v. lacp_priority (upd v) = lacp_priority p"
    and "\<not> truthy_int (lacp_priority p)"
    and "\<And>v. trunk_plain (upd v)"
    and "t \<noteq> []" "f \<noteq> []"
  shows "\<exists>a b. \<forall>v. trunkcmd (upd v) = Inr (a @ tri_state [t] [f] v @ b)"
proof -
  from tri_state_words[of "\<lambda>v. trunk_pieces (upd v)" A t f B] assms(1,5,6)
  obtain a b where "\<forall>v. argv (trunk_pieces (upd v)) = a @ tri_state [t] [f] v @ b"
    by blast
  with assms(2,3,4) show ?thesis
    by (simp add: trunkcmd_plain) blast
qed

lemma pieces_jumbo:
  "trunk_pieces (p\<lparr>jumbo := v\<rparr>) =
     take 7 (trunk_pieces p) @ [opt_flag ''jumbo'' True v, opt_flag ''no-jumbo'' False v] @
     drop 9 (trunk_pieces p)"
  by (simp add: trunk_pieces_def)

lemma text_jumbo:
  "\<not> truthy_int (lacp_priority p) \<Longrightarrow>
   \<exists>a b. \<forall>v. trunk_build (p\<lparr>jumbo := v\<rparr>) =
     Inr (a @ tri_state '' jumbo '' '' no-jumbo '' v @ b)"
  using trunk_flag_text[of "\<lambda>v. p\<lparr>jumbo := v\<rparr>" _ "''jumbo''" "''no-jumbo''" _ p, OF pieces_jumbo]
  by simp

lemma words_jumbo:
  "\<not> truthy_int (lacp_priority p) \<Longrightarrow> trunk_plain p \<Longrightarrow>
   \<exists>a b. \<forall>v. trunkcmd (p\<lparr>jumbo := v\<rparr>) =
     Inr (a @ tri_state [''jumbo''] [''no-jumbo''] v @ b)"
  using trunk_flag_words[of "\<lambda>v. p\<lparr>jumbo := v\<rparr>" _ "''jumbo''" "''no-jumbo''" _ p, OF pieces_jumbo]
  by (simp add: trunk_plain_def)

lemma pieces_edge_switch:
  "trunk_pieces (p\<lparr>edge_switch := v\<rparr>) =
     take 13 (trunk_pieces p) @ [opt_flag ''edge-switch'' True v, opt_flag ''no-edge-switch'' False v] @
     drop 15 (trunk_pieces p)"
  by (simp add: trunk_pieces_def)

lemma text_edge_switch:
  "\<not> truthy_int (lacp_priority p) \<Longrightarrow>
   \<exists>a b. \<forall>v. trunk_build (p\<lparr>edge_switch := v\<rparr>) =
     Inr (a @ tri_state '' edge-switch '' '' no-edge-switch '' v @ b)"
  using trunk_flag_text[of "\<lambda>v. p\<lparr>edge_switch := v\<rparr>" _ "''edge-switch''" "''no-edge-switch''" _ p, OF pieces_edge_switch]
  by simp

lemma words_edge_switch:
  "\<not> truthy_int (lacp_priority p) \<Longrightarrow> trunk_plain p \<Longrightarrow>
   \<exists>a b. \<forall>v. trunkcmd (p\<lparr>edge_switch := v\<rparr>) =
     Inr (a @ tri_state [''edge-switch''] [''no-edge-switch''] v @ b)"
  using trunk_flag_words[of "\<lambda>v. p\<lparr>edge_switch := v\<rparr>" _ "''edge-switch''" "''no-edge-switch''" _ p, OF pieces_edge_switch]
  by (simp add: trunk_plain_def)

lemma pieces_pause:
  "trunk_pieces (p\<lparr>pause := v\<rparr>) =
     take 15 (trunk_pieces p) @ [opt_flag ''pause'' True v, opt_flag ''no-pause'' False v] @
     drop 17 (trunk_pieces p)"
  by (simp add: trunk_pieces_def)

lemma text_pause:
  "\<not> truthy_int (lacp_priority p) \<Longrightarrow>
   \<exists>a b. \<forall>v. trunk_build (p\<lparr>pause := v\<rparr>) =
     Inr (a @ tri_state '' pause '' '' no-pause '' v @ b)"
  using trunk_flag_text[of "\<lambda>v. p\<lparr>pause := v\<rparr>" _ "''pause''" "''no-pause''" _ p, OF pieces_pause]
  by simp

lemma words_pause:
  "\<not> truthy_int (lacp_priority p) \<Longrightarrow> trunk_plain p \<Longrightarrow>
   \<exists>a b. \<forall>v. trunkcmd (p\<lparr>pause := v\<rparr>) =
     Inr (a @ tri_state [''pause''] [''no-pause''] v @ b)"
  using trunk_flag_words[of "\<lambda>v. p\<lparr>pause := v\<rparr>" _ "''pause''" "''no-pause''" _ p, OF pieces_pause]
  by (simp add: trunk_plain_def)

lemma pieces_loopback:
  "trunk_pieces (p\<lparr>loopback := v\<rparr>) =
     take 18 (trunk_pieces p) @ [opt_flag ''loopback'' True v, opt_flag ''no-loopback'' False v] @
     drop 20 (trunk_pieces p)"
  by (simp add: trunk_pieces_def)

lemma text_loopback:
  "\<not> truthy_int (lacp_priority p) \<Longrightarrow>
   \<exists>a b. \<forall>v. trunk_build (p\<lparr>loopback := v\<rparr>) =
     Inr (a @ tri_state '' loopback '' '' no-loopback '' v @ b)"
  using trunk_flag_text[of "\<lambda>v. p\<lparr>loopback := v\<rparr>" _ "''loopback''" "''no-loopback''" _ p, OF pieces_loopback]
  by simp

lemma words_loopback:
  "\<not> truthy_int (lacp_priority p) \<Longrightarrow> trunk_plain p \<Longrightarrow>
   \<exists>a b. \<forall>v. trunkcmd (p\<lparr>loopback := v\<rparr>) =
     Inr (a @ tri_state [''loopback''] [''no-loopback''] v @ b)"
  using trunk_flag_words[of "\<lambda>v. p\<lparr>loopback := v\<rparr>" _ "''loopback''" "''no-loopback''" _ p, OF pieces_loopback]
  by (simp add: trunk_plain_def)

lemma pieces_mirror_receive:
  "trunk_pieces (p\<lparr>mirror_receive := v\<rparr>) =
     take 20 (trunk_pieces p) @ [opt_flag ''mirror-receive-only'' True v, opt_flag ''no-mirror-receive-only'' False v] @
     drop 22 (trunk_pieces p)"
  by (simp add: trunk_pieces_def)

lemma text_mirror_receive:
  "\<not> truthy_int (lacp_priority p) \<Longrightarrow>
   \<exists>a b. \<forall>v. trunk_build (p\<lparr>mirror_receive := v\<rparr>) =
     Inr (a @ tri_state '' mirror-receive-only '' '' no-mirror-receive-only '' v @ b)"
  using trunk_flag_text[of "\<lambda>v. p\<lparr>mirror_receive := v\<rparr>" _ "''mirror-receive-only''" "''no-mirror-receive-only''" _ p, OF pieces_mirror_receive]
  by simp

lemma words_mirror_receive:
  "\<not> truthy_int (lacp_priority p) \<Longrightarrow> trunk_plain p \<Longrightarrow>
   \<exists>a b. \<forall>v. trunkcmd (p\<lparr>mirror_receive := v\<rparr>) =
     Inr (a @ tri_state [''mirror-receive-only''] [''no-mirror-receive-only''] v @ b)"
  using trunk_flag_words[of "\<lambda>v. p\<lparr>mirror_receive := v\<rparr>" _ "''mirror-receive-only''" "''no-mirror-receive-only''" _ p, OF pieces_mirror_receive]
  by (simp add: trunk_plain_def)

lemma pieces_routing:
  "trunk_pieces (p\<lparr>routing := v\<rparr>) =
     take 27 (trunk_pieces p) @ [opt_flag ''routing'' True v, opt_flag ''no-routing'' False v] @
     drop 29 (trunk_pieces p)"
  by (simp add: trunk_pieces_def)

lemma text_routing:
  "\<not> truthy_int (lacp_priority p) \<Longrightarrow>
   \<exists>a b. \<forall>v. trunk_build (p\<lparr>routing := v\<rparr>) =
     Inr (a @ tri_state '' routing '' '' no-routing '' v @ b)"
  using trunk_flag_text[of "\<lambda>v. p\<lparr>routing := v\<rparr>" _ "''routing''" "''no-routing''" _ p, OF pieces_routing]
  by simp

lemma words_routing:
  "\<not> truthy_int (lacp_priority p) \<Longrightarrow> trunk_plain p \<Longrightarrow>
   \<exists>a b. \<forall>v. trunkcmd (p\<lparr>routing := v\<rparr>) =
     Inr (a @ tri_state [''routing''] [''no-routing''] v @ b)"
  using trunk_flag_words[of "\<lambda>v. p\<lparr>routing := v\<rparr>" _ "''routing''" "''no-routing''" _ p, OF pieces_routing]
  by (simp add: trunk_plain_def)

lemma pieces_host:
  "trunk_pieces (p\<lparr>host := v\<rparr>) =
     take 29 (trunk_pieces p) @ [opt_flag ''host-enable'' True v, opt_flag ''host-disable'' False v] @
     drop 31 (trunk_pieces p)"
  by (simp add: trunk_pieces_def)

lemma text_host:
  "\<not> truthy_int (lacp_priority p) \<Longrightarrow>
   \<exists>a b. \<forall>v. trunk_build (p\<lparr>host := v\<rparr>) =
     Inr (a @ tri_state '' host-enable '' '' host-disable '' v @ b)"
  using trunk_flag_text[of "\<lambda>v. p\<lparr>host := v\<rparr>" _ "''host-enable''" "''host-disable''" _ p, OF pieces_host]
  by simp

lemma words_host:
  "\<not> truthy_int (lacp_priority p) \<Longrightarrow> trunk_plain p \<Longrightarrow>
   \<exists>a b. \<forall>v. trunkcmd (p\<lparr>host := v\<rparr>) =
     Inr (a @ tri_state [''host-enable''] [''host-disable''] v @ b)"
  using trunk_flag_words[of "\<lambda>v. p\<lparr>host := v\<rparr>" _ "''host-enable''" "''host-disable''" _ p, OF pieces_host]
  by (simp add: trunk_plain_def)

text \<open>
  On a request on which building completes, that is, with no non-zero
  \<open>pn_lacp_priority\<close>, every three-valued flag of \<open>pn_trunk\<close> (there is none in \<open>pn_vlag\<close>)
  adds its bare token when its value is true, the negated token when it is false and
  nothing when it is absent; the two irregular flags add \<open>mirror-receive-only\<close> /
  \<open>no-mirror-receive-only\<close> and \<open>host-enable\<close> / \<open>host-disable\<close>. The command string is the
  same text \<open>a\<close> and \<open>b\<close> around the flag's token for all three values, and for a plain
  request so is the argument vector.
\<close>

lemma tri_state_flags:
  assumes "\<not> truthy_int (lacp_priority p)"
  shows
    "((\<exists>a b. \<forall>v. trunk_build (p\<lparr>jumbo := v\<rparr>) =
        Inr (a @ tri_state '' jumbo '' '' no-jumbo '' v @ b)) \<and>
     (\<exists>a b. \<forall>v. trunk_build (p\<lparr>edge_switch := v\<rparr>) =
        Inr (a @ tri_state '' edge-switch '' '' no-edge-switch '' v @ b)) \<and>
     (\<exists>a b. \<forall>v. trunk_build (p\<lparr>pause := v\<rparr>) =
        Inr (a @ tri_state '' pause '' '' no-pause '' v @ b)) \<and>
     (\<exists>a b. \<forall>v. trunk_build (p\<lparr>loopback := v\<rparr>) =
        Inr (a @ tri_state '' loopback '' '' no-loopback '' v @ b)) \<and>
     (\<exists>a b. \<forall>v. trunk_build (p\<lparr>mirror_receive := v\<rparr>) =
        Inr (a @ tri_state '' mirror-receive-only '' '' no-mirror-receive-only '' v @ b)) \<and>
     (\<exists>a b. \<forall>v. trunk_build (p\<lparr>routing := v\<rparr>) =
        Inr (a @ tri_state '' routing '' '' no-routing '' v @ b)) \<and>
     (\<exists>a b. \<forall>v. trunk_build (p\<lparr>host := v\<rparr>) =
        Inr (a @ tri_state '' host-enable '' '' host-disable '' v @ b))) \<and>
     (trunk_plain p \<longrightarrow>
      (\<exists>a b. \<forall>v. trunkcmd (p\<lparr>jumbo := v\<rparr>) =
         Inr (a @ tri_state [''jumbo''] [''no-jumbo''] v @ b)) \<and>
      (\<exists>a b. \<forall>v. trunkcmd (p\<lparr>edge_switch := v\<rparr>) =
         Inr (a @ tri_state [''edge-switch''] [''no-edge-switch''] v @ b)) \<and>
      (\<exists>a b. \<forall>v. trunkcmd (p\<lparr>pause := v\<rparr>) =
         Inr (a @ tri_state [''pause''] [''no-pause''] v @ b)) \<and>
      (\<exists>a b. \<forall>v. trunkcmd (p\<lparr>loopback := v\<rparr>) =
         Inr (a @ tri_state [''loopback''] [''no-loopback''] v @ b)) \<and>
      (\<exists>a b. \<forall>v. trunkcmd (p\<lparr>mirror_receive := v\<rparr>) =
         Inr (a @ tri_state [''mirror-receive-only''] [''no-mirror-receive-only''] v @ b)) \<and>
      (\<exists>a b. \<forall>v. trunkcmd (p\<lparr>routing := v\<rparr>) =
         Inr (a @ tri_state [''routing''] [''no-routing''] v @ b)) \<and>
      (\<exists>a b. \<forall>v. trunkcmd (p\<lparr>host := v\<rparr>) =
         Inr (a @ tri_state [''host-enable''] [''host-disable''] v @ b)))"
  using assms
  by (intro conjI impI)
     (rule text_jumbo text_edge_switch text_pause text_loopback text_mirror_receive text_routing text_host
           words_jumbo words_edge_switch words_pause words_loopback words_mirror_receive words_routing words_host; assumption)+

lemma tri_state_flags_example:
  "\<not> truthy_int (lacp_priority example_trunk) \<and> trunk_plain example_trunk \<and>
   (\<exists>a b. \<forall>v. trunk_build (example_trunk\<lparr>host := v\<rparr>) =
      Inr (a @ tri_state '' host-enable '' '' host-disable '' v @ b)) \<and>
   (\<exists>a b. \<forall>v. trunkcmd (example_trunk\<lparr>mirror_receive := v\<rparr>) =
      Inr (a @ tri_state [''mirror-receive-only''] [''no-mirror-receive-only''] v @ b))"
proof -
  have h: "\<not> truthy_int (lacp_priority example_trunk)"
    by (simp add: example_trunk_def trunk_create_request_def truthy_int_def)
  have pl: "trunk_plain example_trunk"
    by (simp add: example_trunk_def trunk_create_request_def trunk_plain_def plain_opt_def
        plain_simps)
  from tri_state_flags[OF h] pl h show ?thesis
    by blast
qed

text \<open>
  C2. The flags are lost on a request that also sets \<open>pn_lacp_priority\<close> to an integer
  other than \<open>0\<close>: \<open>' lacp-priority ' + lacp_priority\<close> raises \<open>TypeError\<close> (the defect of
  C6), so no command is built, no flag token is rendered and nothing is run. Here on the
  trunk of the module's example with \<open>pn_jumbo\<close> true, \<open>pn_host\<close> false and priority
  \<open>32768\<close>; without the priority the same request gives the words \<open>jumbo\<close> and
  \<open>host-disable\<close>.
\<close>

theorem tri_state_flags_lost_to_type_error:
  "trunk_build (example_trunk\<lparr>jumbo := Some True, host := Some False,
      lacp_priority := Some 32768\<rparr>) = Inl TypeError \<and>
   trunkcmd (example_trunk\<lparr>jumbo := Some True, host := Some False,
      lacp_priority := Some 32768\<rparr>) = Inl TypeError \<and>
   trunk_main popen_ok (example_trunk\<lparr>jumbo := Some True, host := Some False,
      lacp_priority := Some 32768\<rparr>) = (Inl TypeError, []) \<and>
   trunkcmd (example_trunk\<lparr>jumbo := Some True, host := Some False\<rparr>) =
     Inr [''/usr/bin/cli'', ''--quiet'', ''--user'', ''admin:admin'', ''trunk-create'',
          ''name'', ''spine-to-leaf'', ''ports'', ''11,12,13,14'', ''jumbo'',
          ''host-disable'']"
proof -
  let ?p = "example_trunk\<lparr>jumbo := Some True, host := Some False,
      lacp_priority := Some 32768\<rparr>"
  let ?q = "example_trunk\<lparr>jumbo := Some True, host := Some False\<rparr>"
  have b: "trunk_build ?p = Inl TypeError"
    by (simp add: trunk_build_pieces truthy_int_def)
  have v: "check_required_if trunk_required_if (command ?p) ?p"
    by (simp add: check_required_if_def trunk_required_if_def example_trunk_def
        trunk_create_request_def)
  have c: "check_choices trunk_choices ?p"
    by (simp add: check_choices_def trunk_choices_def example_trunk_def
        trunk_create_request_def)
  have m: "trunk_main popen_ok ?p = (Inl TypeError, [])"
    using v c by (simp add: trunk_main_def b)
  have "trunk_plain ?q"
    by (simp add: example_trunk_def trunk_create_request_def trunk_plain_def plain_opt_def
        plain_simps)
  then have "trunkcmd ?q = Inr (argv (trunk_pieces ?q))"
    by (rule trunkcmd_plain)
       (simp add: example_trunk_def trunk_create_request_def truthy_int_def)
  then have q: "trunkcmd ?q =
     Inr [''/usr/bin/cli'', ''--quiet'', ''--user'', ''admin:admin'', ''trunk-create'',
          ''name'', ''spine-to-leaf'', ''ports'', ''11,12,13,14'', ''jumbo'',
          ''host-disable'']"
    by (simp add: trunk_pieces_def example_trunk_def trunk_create_request_def argv_def
        piece_words_simps word_def truthy_def py_str_def)
  from b m q show ?thesis
    by (simp add: trunkcmd_def)
qed

lemma pieces_peer_switch:
  "vlag_pieces (p\<lparr>peer_switch := v\<rparr>) =
     take 6 (vlag_pieces p) @
     [if truthy v then ([''peer-switch'' @ the v], False) else absent] @
     drop 7 (vlag_pieces p)"
  by (simp add: vlag_pieces_def)

lemma pieces_failover_action:
  "vlag_pieces (p\<lparr>failover_action := v\<rparr>) =
     take 7 (vlag_pieces p) @
     [if truthy v then ([''failover-'' @ the v @ ''-L2''], True) else absent] @
     drop 8 (vlag_pieces p)"
  by (simp add: vlag_pieces_def)

lemma peer_switch_text:
  assumes "name p = Some n"
  shows "\<exists>a b. vlag_build (p\<lparr>peer_switch := None\<rparr>) = Inr (a @ b) \<and> sep b \<and>
       (\<forall>v. v \<noteq> [] \<longrightarrow>
          vlag_build (p\<lparr>peer_switch := Some v\<rparr>) = Inr (a @ '' peer-switch'' @ v @ b))"
proof -
  let ?A = "take 6 (vlag_pieces p)" and ?B = "drop 7 (vlag_pieces p)"
  have "vlag_build (p\<lparr>peer_switch := None\<rparr>) =
      Inr (command_line ?A @ concat (map render ?B))"
    using assms
    by (simp add: vlag_build_pieces pieces_peer_switch command_line_append render_absent
        truthy_def)
  moreover have "v \<noteq> [] \<Longrightarrow> vlag_build (p\<lparr>peer_switch := Some v\<rparr>) =
      Inr (command_line ?A @ '' peer-switch'' @ v @ concat (map render ?B))" for v
    using assms
    by (simp add: vlag_build_pieces pieces_peer_switch command_line_append render_Pair
        spaced_simps truthy_def)
  ultimately show ?thesis
    using sep_pieces[of ?B] by blast
qed

lemma peer_switch_words:
  assumes "name p = Some n" and pl: "vlag_plain p"
  shows "\<exists>a b. vlagcmd (p\<lparr>peer_switch := None\<rparr>) = Inr (a @ b) \<and>
       (\<forall>v. v \<noteq> [] \<and> plain v \<longrightarrow>
          vlagcmd (p\<lparr>peer_switch := Some v\<rparr>) = Inr (a @ [''peer-switch'' @ v] @ b))"
proof -
  let ?A = "take 6 (vlag_pieces p)" and ?B = "drop 7 (vlag_pieces p)"
  from pl have pn: "vlag_plain (p\<lparr>peer_switch := None\<rparr>)"
    by (simp add: vlag_plain_def plain_opt_def)
  have "vlagcmd (p\<lparr>peer_switch := None\<rparr>) = Inr (argv ?A @ concat (map piece_words ?B))"
    using assms vlagcmd_plain[OF pn, of n]
    by (simp add: pieces_peer_switch argv_append piece_words_absent truthy_def)
  moreover have "v \<noteq> [] \<and> plain v \<longrightarrow> vlagcmd (p\<lparr>peer_switch := Some v\<rparr>) =
      Inr (argv ?A @ [''peer-switch'' @ v] @ concat (map piece_words ?B))" for v
  proof
    assume v: "v \<noteq> [] \<and> plain v"
    with pl have pv: "vlag_plain (p\<lparr>peer_switch := Some v\<rparr>)"
      by (simp add: vlag_plain_def plain_opt_def)
    from v assms vlagcmd_plain[OF pv, of n]
    show "vlagcmd (p\<lparr>peer_switch := Some v\<rparr>) =
        Inr (argv ?A @ [''peer-switch'' @ v] @ concat (map piece_words ?B))"
      by (simp add: pieces_peer_switch argv_append piece_words_Pair word_def truthy_def)
  qed
  ultimately show ?thesis
    by blast
qed

lemma failover_action_text:
  assumes "name p = Some n"
  shows "\<exists>a b. vlag_build (p\<lparr>failover_action := None\<rparr>) = Inr (a @ b) \<and>
       (\<forall>v. v \<noteq> [] \<longrightarrow>
          vlag_build (p\<lparr>failover_action := Some v\<rparr>) =
            Inr (a @ '' failover-'' @ v @ ''-L2 '' @ b))"
proof -
  let ?A = "take 7 (vlag_pieces p)" and ?B = "drop 8 (vlag_pieces p)"
  have "vlag_build (p\<lparr>failover_action := None\<rparr>) =
      Inr (command_line ?A @ concat (map render ?B))"
    using assms
    by (simp add: vlag_build_pieces pieces_failover_action command_line_append render_absent
        truthy_def)
  moreover have "v \<noteq> [] \<Longrightarrow> vlag_build (p\<lparr>failover_action := Some v\<rparr>) =
      Inr (command_line ?A @ '' failover-'' @ v @ ''-L2 '' @ concat (map render ?B))" for v
    using assms
    by (simp add: vlag_build_pieces pieces_failover_action command_line_append render_Pair
        spaced_simps truthy_def)
  ultimately show ?thesis
    by blast
qed

lemma failover_action_words:
  assumes "name p = Some n" and pl: "vlag_plain p"
  shows "\<exists>a b. vlagcmd (p\<lparr>failover_action := None\<rparr>) = Inr (a @ b) \<and>
       (\<forall>v. v \<noteq> [] \<and> plain v \<longrightarrow>
          vlagcmd (p\<lparr>failover_action := Some v\<rparr>) =
            Inr (a @ [''failover-'' @ v @ ''-L2''] @ b))"
proof -
  let ?A = "take 7 (vlag_pieces p)" and ?B = "drop 8 (vlag_pieces p)"
  from pl have pn: "vlag_plain (p\<lparr>failover_action := None\<rparr>)"
    by (simp add: vlag_plain_def plain_opt_def)
  have "vlagcmd (p\<lparr>failover_action := None\<rparr>) =
      Inr (argv ?A @ concat (map piece_words ?B))"
    using assms vlagcmd_plain[OF pn, of n]
    by (simp add: pieces_failover_action argv_append piece_words_absent truthy_def)
  moreover have "v \<noteq> [] \<and> plain v \<longrightarrow> vlagcmd (p\<lparr>failover_action := Some v\<rparr>) =
      Inr (argv ?A @ [''failover-'' @ v @ ''-L2''] @ concat (map piece_words ?B))" for v
  proof
    assume v: "v \<noteq> [] \<and> plain v"
    with pl have pv: "vlag_plain (p\<lparr>failover_action := Some v\<rparr>)"
      by (simp add: vlag_plain_def plain_opt_def)
    from v assms vlagcmd_plain[OF pv, of n]
    show "vlagcmd (p\<lparr>failover_action := Some v\<rparr>) =
        Inr (argv ?A @ [''failover-'' @ v @ ''-L2''] @ concat (map piece_words ?B))"
      by (simp add: pieces_failover_action argv_append piece_words_Pair word_def truthy_def)
  qed
  ultimately show ?thesis
    by blast
qed

lemma example_vlag_plain: "vlag_plain example_vlag"
  by (simp add: example_vlag_def vlag_plain_def plain_opt_def plain_simps)

lemma example_trunk_plain: "trunk_plain example_trunk"
  by (simp add: example_trunk_def trunk_create_request_def trunk_plain_def plain_opt_def
      plain_simps)

text \<open>
  C7. \<open>pn_vlag\<close> adds a peer switch that is set (and not empty) as \<open>peer-switch\<close>
  immediately followed by the value, with no blank between them: the command string is
  the one without a peer switch with that text inserted, and what follows the value is
  nothing or a blank. For a plain request the argument vector has the one word
  \<open>peer-switch<value>\<close> at that place. The request has a name, as every request that
  passes the framework has.
\<close>

theorem peer_switch_without_blank:
  assumes "name p = Some n"
  shows
    "(\<exists>a b. vlag_build (p\<lparr>peer_switch := None\<rparr>) = Inr (a @ b) \<and> sep b \<and>
       (\<forall>v. v \<noteq> [] \<longrightarrow>
          vlag_build (p\<lparr>peer_switch := Some v\<rparr>) = Inr (a @ '' peer-switch'' @ v @ b))) \<and>
     (vlag_plain p \<longrightarrow>
      (\<exists>a b. vlagcmd (p\<lparr>peer_switch := None\<rparr>) = Inr (a @ b) \<and>
       (\<forall>v. v \<noteq> [] \<and> plain v \<longrightarrow>
          vlagcmd (p\<lparr>peer_switch := Some v\<rparr>) = Inr (a @ [''peer-switch'' @ v] @ b))))"
  using peer_switch_text[OF assms] peer_switch_words[OF assms] by blast

theorem peer_switch_without_blank_witness:
  "name example_vlag = Some ''spine-to-leaf'' \<and> vlag_plain example_vlag \<and>
   (\<exists>a b. vlagcmd (example_vlag\<lparr>peer_switch := None\<rparr>) = Inr (a @ b) \<and>
      vlagcmd (example_vlag\<lparr>peer_switch := Some ''spine02''\<rparr>) =
        Inr (a @ [''peer-switchspine02''] @ b)) \<and>
   (\<exists>a b. vlag_build (example_vlag\<lparr>peer_switch := None\<rparr>) = Inr (a @ b) \<and> sep b \<and>
      vlag_build (example_vlag\<lparr>peer_switch := Some ''spine02''\<rparr>) =
        Inr (a @ '' peer-switchspine02'' @ b))"
proof -
  have n: "name example_vlag = Some ''spine-to-leaf''"
    by (simp add: example_vlag_def)
  have v: "''spine02'' \<noteq> [] \<and> plain ''spine02''"
    by (simp add: plain_simps)
  from peer_switch_without_blank[OF n] example_vlag_plain v
  obtain a b a' b' where
    "vlag_build (example_vlag\<lparr>peer_switch := None\<rparr>) = Inr (a @ b)" "sep b"
    "vlag_build (example_vlag\<lparr>peer_switch := Some ''spine02''\<rparr>) =
       Inr (a @ '' peer-switch'' @ ''spine02'' @ b)"
    "vlagcmd (example_vlag\<lparr>peer_switch := None\<rparr>) = Inr (a' @ b')"
    "vlagcmd (example_vlag\<lparr>peer_switch := Some ''spine02''\<rparr>) =
       Inr (a' @ [''peer-switch'' @ ''spine02''] @ b')"
    by blast
  with n example_vlag_plain show ?thesis
    by auto
qed

text \<open>
  C8. \<open>pn_vlag\<close> adds a failover action that is set (\<open>move\<close> or \<open>ignore\<close>; any value that
  is not empty) as the one word \<open>failover-<value>-L2\<close>: the command string is the one
  without a failover action with \<open> failover-<value>-L2 \<close> inserted, and for a plain
  request the argument vector has the word \<open>failover-<value>-L2\<close> at that place, with no
  separate word for the field's name.
\<close>

theorem failover_action_one_word:
  assumes "name p = Some n"
  shows
    "(\<exists>a b. vlag_build (p\<lparr>failover_action := None\<rparr>) = Inr (a @ b) \<and>
       (\<forall>v. v \<noteq> [] \<longrightarrow>
          vlag_build (p\<lparr>failover_action := Some v\<rparr>) =
            Inr (a @ '' failover-'' @ v @ ''-L2 '' @ b))) \<and>
     (vlag_plain p \<longrightarrow>
      (\<exists>a b. vlagcmd (p\<lparr>failover_action := None\<rparr>) = Inr (a @ b) \<and>
       (\<forall>v. v \<noteq> [] \<and> plain v \<longrightarrow>
          vlagcmd (p\<lparr>failover_action := Some v\<rparr>) =
            Inr (a @ [''failover-'' @ v @ ''-L2''] @ b))))"
  using failover_action_text[OF assms] failover_action_words[OF assms] by blast

theorem failover_action_one_word_witness:
  "name example_vlag = Some ''spine-to-leaf'' \<and> vlag_plain example_vlag \<and>
   (\<exists>a b. vlagcmd (example_vlag\<lparr>failover_action := None\<rparr>) = Inr (a @ b) \<and>
      vlagcmd (example_vlag\<lparr>failover_action := Some ''move''\<rparr>) =
        Inr (a @ [''failover-move-L2''] @ b) \<and>
      vlagcmd (example_vlag\<lparr>failover_action := Some ''ignore''\<rparr>) =
        Inr (a @ [''failover-ignore-L2''] @ b)) \<and>
   (\<exists>a b. vlag_build (example_vlag\<lparr>failover_action := None\<rparr>) = Inr (a @ b) \<and>
      vlag_build (example_vlag\<lparr>failover_action := Some ''move''\<rparr>) =
        Inr (a @ '' failover-move-L2 '' @ b))"
proof -
  have n: "name example_vlag = Some ''spine-to-leaf''"
    by (simp add: example_vlag_def)
  have v: "''move'' \<noteq> [] \<and> plain ''move''" "''ignore'' \<noteq> [] \<and> plain ''ignore''"
    by (simp_all add: plain_simps)
  from failover_action_one_word[OF n] example_vlag_plain v
  obtain a b a' b' where
    "vlag_build (example_vlag\<lparr>failover_action := None\<rparr>) = Inr (a @ b)"
    "vlag_build (example_vlag\<lparr>failover_action := Some ''move''\<rparr>) =
       Inr (a @ '' failover-'' @ ''move'' @ ''-L2 '' @ b)"
    "vlagcmd (example_vlag\<lparr>failover_action := None\<rparr>) = Inr (a' @ b')"
    "vlagcmd (example_vlag\<lparr>failover_action := Some ''move''\<rparr>) =
       Inr (a' @ [''failover-'' @ ''move'' @ ''-L2''] @ b')"
    "vlagcmd (example_vlag\<lparr>failover_action := Some ''ignore''\<rparr>) =
       Inr (a' @ [''failover-'' @ ''ignore'' @ ''-L2''] @ b')"
    by blast
  with n example_vlag_plain show ?thesis
    by auto
qed

text \<open>
  C5. A \<open>trunk-create\<close> request that sets only the name and the (non-empty) ports gives
  the command string \<open>/usr/bin/cli --quiet  --user <user>:<password>  trunk-create name
  <name>  ports <ports>\<close>, and when the credentials, the name and the ports are shell
  words the argument vector is exactly \<open>/usr/bin/cli --quiet --user <user>:<password>
  trunk-create name <name> ports <ports>\<close>: it ends with \<open>trunk-create name <name> ports
  <ports>\<close> and has no word of another field.
\<close>

theorem trunk_create_name_and_ports:
  assumes "ps \<noteq> []"
  shows
    "trunk_build (trunk_create_request user password n ps) =
       Inr (''/usr/bin/cli --quiet  --user '' @ user @ '':'' @ password @
            ''  trunk-create name '' @ n @ ''  ports '' @ ps) \<and>
     (plain user \<and> plain password \<and> plain n \<and> n \<noteq> [] \<and> plain ps \<longrightarrow>
      trunkcmd (trunk_create_request user password n ps) =
        Inr [''/usr/bin/cli'', ''--quiet'', ''--user'', user @ '':'' @ password,
             ''trunk-create'', ''name'', n, ''ports'', ps])"
proof (intro conjI impI)
  show "trunk_build (trunk_create_request user password n ps) =
       Inr (''/usr/bin/cli --quiet  --user '' @ user @ '':'' @ password @
            ''  trunk-create name '' @ n @ ''  ports '' @ ps)"
    using assms
    by (simp add: trunk_build_pieces trunk_pieces_def trunk_create_request_def
        command_line_def render_simps truthy_def truthy_int_def py_str_def)
next
  assume pl: "plain user \<and> plain password \<and> plain n \<and> n \<noteq> [] \<and> plain ps"
  then have "trunk_plain (trunk_create_request user password n ps)"
    by (simp add: trunk_plain_def trunk_create_request_def plain_opt_def)
  moreover have "\<not> truthy_int (lacp_priority (trunk_create_request user password n ps))"
    by (simp add: trunk_create_request_def truthy_int_def)
  ultimately have "trunkcmd (trunk_create_request user password n ps) =
      Inr (argv (trunk_pieces (trunk_create_request user password n ps)))"
    by (rule trunkcmd_plain)
  with pl assms show "trunkcmd (trunk_create_request user password n ps) =
        Inr [''/usr/bin/cli'', ''--quiet'', ''--user'', user @ '':'' @ password,
             ''trunk-create'', ''name'', n, ''ports'', ps]"
    by (simp add: trunk_pieces_def trunk_create_request_def argv_def piece_words_simps
        word_def truthy_def py_str_def)
qed

theorem trunk_create_name_and_ports_witness:
  "''11,12,13,14'' \<noteq> [] \<and>
   trunk_build example_trunk =
     Inr ''/usr/bin/cli --quiet  --user admin:admin  trunk-create name spine-to-leaf  ports 11,12,13,14'' \<and>
   trunkcmd example_trunk =
     Inr [''/usr/bin/cli'', ''--quiet'', ''--user'', ''admin:admin'',
          ''trunk-create'', ''name'', ''spine-to-leaf'', ''ports'', ''11,12,13,14'']"
proof -
  have ne: "''11,12,13,14'' \<noteq> []"
    by simp
  have pl: "plain ''admin'' \<and> plain ''admin'' \<and> plain ''spine-to-leaf'' \<and>
      ''spine-to-leaf'' \<noteq> [] \<and> plain ''11,12,13,14''"
    by (simp add: plain_simps)
  from trunk_create_name_and_ports[OF ne, of "''admin''" "''admin''" "''spine-to-leaf''"] pl
  show ?thesis
    by (simp add: example_trunk_def)
qed

text \<open>
  C4. A request without a parameter that its command requires is rejected by the
  validation and nothing is run: no name for any command, no ports for \<open>trunk-create\<close>,
  no port or no peer port for \<open>vlag-create\<close>.
\<close>

theorem missing_required_rejected:
  "(name p = None \<or> command p = TrunkCreate \<and> ports p = None \<longrightarrow>
      trunk_main popen p = (Inl ValidationError, [])) \<and>
   (name q = None \<or> command q = VlagCreate \<and> (port q = None \<or> peer_port q = None) \<longrightarrow>
      vlag_main popen q = (Inl ValidationError, []))"
proof (intro conjI impI)
  assume "name p = None \<or> command p = TrunkCreate \<and> ports p = None"
  then have "\<not> check_required_if trunk_required_if (command p) p"
    by (cases "command p") (auto simp: check_required_if_def trunk_required_if_def)
  then show "trunk_main popen p = (Inl ValidationError, [])"
    by (simp add: trunk_main_def)
next
  assume "name q = None \<or> command q = VlagCreate \<and> (port q = None \<or> peer_port q = None)"
  then have "\<not> check_required_if vlag_required_if (command q) q"
    by (cases "command q") (auto simp: check_required_if_def vlag_required_if_def)
  then show "vlag_main popen q = (Inl ValidationError, [])"
    by (simp add: vlag_main_def)
qed

theorem missing_required_rejected_witness:
  "command (example_trunk\<lparr>ports := None\<rparr>) = TrunkCreate \<and>
   ports (example_trunk\<lparr>ports := None\<rparr>) = None \<and>
   trunk_main popen_ok (example_trunk\<lparr>ports := None\<rparr>) = (Inl ValidationError, []) \<and>
   command (example_vlag\<lparr>peer_port := None\<rparr>) = VlagCreate \<and>
   peer_port (example_vlag\<lparr>peer_port := None\<rparr>) = None \<and>
   vlag_main popen_ok (example_vlag\<lparr>peer_port := None\<rparr>) = (Inl ValidationError, [])"
  using missing_required_rejected[of "example_trunk\<lparr>ports := None\<rparr>" popen_ok
      "example_vlag\<lparr>peer_port := None\<rparr>"]
  by (simp add: example_trunk_def trunk_create_request_def example_vlag_def)

lemma trunk_pieces_falsy:
  "trunk_pieces (p\<lparr>cliswitch := Some []\<rparr>) = trunk_pieces (p\<lparr>cliswitch := None\<rparr>)"
  "trunk_pieces (p\<lparr>ports := Some []\<rparr>) = trunk_pieces (p\<lparr>ports := None\<rparr>)"
  "trunk_pieces (p\<lparr>speed := Some []\<rparr>) = trunk_pieces (p\<lparr>speed := None\<rparr>)"
  "trunk_pieces (p\<lparr>egress_rate_limit := Some []\<rparr>) =
     trunk_pieces (p\<lparr>egress_rate_limit := None\<rparr>)"
  "trunk_pieces (p\<lparr>lacp_mode := Some []\<rparr>) = trunk_pieces (p\<lparr>lacp_mode := None\<rparr>)"
  "trunk_pieces (p\<lparr>lacp_timeout := Some []\<rparr>) = trunk_pieces (p\<lparr>lacp_timeout := None\<rparr>)"
  "trunk_pieces (p\<lparr>lacp_fallback := Some []\<rparr>) = trunk_pieces (p\<lparr>lacp_fallback := None\<rparr>)"
  "trunk_pieces (p\<lparr>lacp_fallback_timeout := Some []\<rparr>) =
     trunk_pieces (p\<lparr>lacp_fallback_timeout := None\<rparr>)"
  "trunk_pieces (p\<lparr>description := Some []\<rparr>) = trunk_pieces (p\<lparr>description := None\<rparr>)"
  "trunk_pieces (p\<lparr>unknown_ucast_level := Some []\<rparr>) =
     trunk_pieces (p\<lparr>unknown_ucast_level := None\<rparr>)"
  "trunk_pieces (p\<lparr>unknown_mcast_level := Some []\<rparr>) =
     trunk_pieces (p\<lparr>unknown_mcast_level := None\<rparr>)"
  "trunk_pieces (p\<lparr>broadcast_level := Some []\<rparr>) =
     trunk_pieces (p\<lparr>broadcast_level := None\<rparr>)"
  "trunk_pieces (p\<lparr>port_macaddr := Some []\<rparr>) = trunk_pieces (p\<lparr>port_macaddr := None\<rparr>)"
  "trunk_pieces (p\<lparr>loopvlans := Some []\<rparr>) = trunk_pieces (p\<lparr>loopvlans := None\<rparr>)"
  "trunk_pieces (p\<lparr>lacp_priority := Some 0\<rparr>) = trunk_pieces (p\<lparr>lacp_priority := None\<rparr>)"
  by (simp_all add: trunk_pieces_def opt_arg_def truthy_def)

lemma vlag_pieces_falsy:
  "vlag_pieces (q\<lparr>cliswitch := Some []\<rparr>) = vlag_pieces (q\<lparr>cliswitch := None\<rparr>)"
  "vlag_pieces (q\<lparr>port := Some []\<rparr>) = vlag_pieces (q\<lparr>port := None\<rparr>)"
  "vlag_pieces (q\<lparr>peer_port := Some []\<rparr>) = vlag_pieces (q\<lparr>peer_port := None\<rparr>)"
  "vlag_pieces (q\<lparr>mode := Some []\<rparr>) = vlag_pieces (q\<lparr>mode := None\<rparr>)"
  "vlag_pieces (q\<lparr>peer_switch := Some []\<rparr>) = vlag_pieces (q\<lparr>peer_switch := None\<rparr>)"
  "vlag_pieces (q\<lparr>failover_action := Some []\<rparr>) =
     vlag_pieces (q\<lparr>failover_action := None\<rparr>)"
  "vlag_pieces (q\<lparr>lacp_mode := Some []\<rparr>) = vlag_pieces (q\<lparr>lacp_mode := None\<rparr>)"
  "vlag_pieces (q\<lparr>lacp_timeout := Some []\<rparr>) = vlag_pieces (q\<lparr>lacp_timeout := None\<rparr>)"
  "vlag_pieces (q\<lparr>lacp_fallback := Some []\<rparr>) = vlag_pieces (q\<lparr>lacp_fallback := None\<rparr>)"
  "vlag_pieces (q\<lparr>lacp_fallback_timeout := Some []\<rparr>) =
     vlag_pieces (q\<lparr>lacp_fallback_timeout := None\<rparr>)"
  by (simp_all add: vlag_pieces_def opt_arg_def truthy_def)

text \<open>
  C10. A value that Python takes for false renders like no value: every string
  parameter that \<open>main\<close> tests with \<open>if x:\<close> gives the same command string when it is the
  empty string as when it is not set, in both modules, and so does \<open>pn_lacp_priority\<close>
  when it is \<open>0\<close>.
\<close>

theorem falsy_renders_as_absent:
  "trunk_build (p\<lparr>cliswitch := Some []\<rparr>) = trunk_build (p\<lparr>cliswitch := None\<rparr>) \<and>
   trunk_build (p\<lparr>ports := Some []\<rparr>) = trunk_build (p\<lparr>ports := None\<rparr>) \<and>
   trunk_build (p\<lparr>speed := Some []\<rparr>) = trunk_build (p\<lparr>speed := None\<rparr>) \<and>
   trunk_build (p\<lparr>egress_rate_limit := Some []\<rparr>) = trunk_build (p\<lparr>egress_rate_limit := None\<rparr>) \<and>
   trunk_build (p\<lparr>lacp_mode := Some []\<rparr>) = trunk_build (p\<lparr>lacp_mode := None\<rparr>) \<and>
   trunk_build (p\<lparr>lacp_timeout := Some []\<rparr>) = trunk_build (p\<lparr>lacp_timeout := None\<rparr>) \<and>
   trunk_build (p\<lparr>lacp_fallback := Some []\<rparr>) = trunk_build (p\<lparr>lacp_fallback := None\<rparr>) \<and>
   trunk_build (p\<lparr>lacp_fallback_timeout := Some []\<rparr>) = trunk_build (p\<lparr>lacp_fallback_timeout := None\<rparr>) \<and>
   trunk_build (p\<lparr>description := Some []\<rparr>) = trunk_build (p\<lparr>description := None\<rparr>) \<and>
   trunk_build (p\<lparr>unknown_ucast_level := Some []\<rparr>) = trunk_build (p\<lparr>unknown_ucast_level := None\<rparr>) \<and>
   trunk_build (p\<lparr>unknown_mcast_level := Some []\<rparr>) = trunk_build (p\<lparr>unknown_mcast_level := None\<rparr>) \<and>
   trunk_build (p\<lparr>broadcast_level := Some []\<rparr>) = trunk_build (p\<lparr>broadcast_level := None\<rparr>) \<and>
   trunk_build (p\<lparr>port_macaddr := Some []\<rparr>) = trunk_build (p\<lparr>port_macaddr := None\<rparr>) \<and>
   trunk_build (p\<lparr>loopvlans := Some []\<rparr>) = trunk_build (p\<lparr>loopvlans := None\<rparr>) \<and>
   trunk_build (p\<lparr>lacp_priority := Some 0\<rparr>) = trunk_build (p\<lparr>lacp_priority := None\<rparr>) \<and>
   vlag_build (q\<lparr>cliswitch := Some []\<rparr>) = vlag_build (q\<lparr>cliswitch := None\<rparr>) \<and>
   vlag_build (q\<lparr>port := Some []\<rparr>) = vlag_build (q\<lparr>port := None\<rparr>) \<and>
   vlag_build (q\<lparr>peer_port := Some []\<rparr>) = vlag_build (q\<lparr>peer_port := None\<rparr>) \<and>
   vlag_build (q\<lparr>mode := Some []\<rparr>) = vlag_build (q\<lparr>mode := None\<rparr>) \<and>
   vlag_build (q\<lparr>peer_switch := Some []\<rparr>) = vlag_build (q\<lparr>peer_switch := None\<rparr>) \<and>
   vlag_build (q\<lparr>failover_action := Some []\<rparr>) = vlag_build (q\<lparr>failover_action := None\<rparr>) \<and>
   vlag_build (q\<lparr>lacp_mode := Some []\<rparr>) = vlag_build (q\<lparr>lacp_mode := None\<rparr>) \<and>
   vlag_build (q\<lparr>lacp_timeout := Some []\<rparr>) = vlag_build (q\<lparr>lacp_timeout := None\<rparr>) \<and>
   vlag_build (q\<lparr>lacp_fallback := Some []\<rparr>) = vlag_build (q\<lparr>lacp_fallback := None\<rparr>) \<and>
   vlag_build (q\<lparr>lacp_fallback_timeout := Some []\<rparr>) = vlag_build (q\<lparr>lacp_fallback_timeout := None\<rparr>)"
  by (simp add: trunk_build_pieces vlag_build_pieces trunk_pieces_falsy vlag_pieces_falsy
      truthy_int_def cong: option.case_cong)

theorem falsy_renders_as_absent_witness:
  "trunk_build (example_trunk\<lparr>description := Some []\<rparr>) = trunk_build example_trunk \<and>
   trunk_build (example_trunk\<lparr>lacp_priority := Some 0\<rparr>) = trunk_build example_trunk \<and>
   vlag_build (example_vlag\<lparr>failover_action := Some []\<rparr>) = vlag_build example_vlag \<and>
   vlag_build (example_vlag\<lparr>peer_switch := Some []\<rparr>) =
     Inr ''/usr/bin/cli --quiet --user admin:admin  vlag-create name spine-to-leaf port spine01-to-leaf peer-port spine02-to-leaf mode active-active''"
proof -
  have t: "example_trunk\<lparr>description := None\<rparr> = example_trunk"
      "example_trunk\<lparr>lacp_priority := None\<rparr> = example_trunk"
    by (simp_all add: example_trunk_def trunk_create_request_def)
  have v: "example_vlag\<lparr>failover_action := None\<rparr> = example_vlag"
    by (simp add: example_vlag_def)
  have n: "vlag_build (example_vlag\<lparr>peer_switch := None\<rparr>) =
     Inr ''/usr/bin/cli --quiet --user admin:admin  vlag-create name spine-to-leaf port spine01-to-leaf peer-port spine02-to-leaf mode active-active''"
    by (simp add: vlag_build_pieces vlag_pieces_def example_vlag_def command_line_def
        render_simps truthy_def py_str_def)
  from falsy_renders_as_absent[of example_trunk example_vlag] t v n show ?thesis
    by simp
qed

lemma lacp_priority_raises:
  "trunk_build p = Inl TypeError \<longleftrightarrow> truthy_int (lacp_priority p)"
  by (simp add: trunk_build_pieces)

text \<open>
  C6. Building is not total on well-formed requests: with \<open>pn_lacp_priority\<close> set to an
  integer other than \<open>0\<close>, the statement \<open>cli += ' lacp-priority ' + lacp_priority\<close> adds an
  integer to a string; \<open>main\<close> ends with \<open>TypeError\<close>, no command string is built and
  nothing is run. Here on the trunk of the module's example with priority \<open>32768\<close>.
\<close>

theorem lacp_priority_type_error:
  "trunk_build (example_trunk\<lparr>lacp_priority := Some 32768\<rparr>) = Inl TypeError \<and>
   trunkcmd (example_trunk\<lparr>lacp_priority := Some 32768\<rparr>) = Inl TypeError \<and>
   trunk_main popen_ok (example_trunk\<lparr>lacp_priority := Some 32768\<rparr>) = (Inl TypeError, [])"
proof -
  have b: "trunk_build (example_trunk\<lparr>lacp_priority := Some 32768\<rparr>) = Inl TypeError"
    by (simp add: trunk_build_pieces truthy_int_def)
  have v: "check_required_if trunk_required_if
      (command (example_trunk\<lparr>lacp_priority := Some 32768\<rparr>))
      (example_trunk\<lparr>lacp_priority := Some 32768\<rparr>)"
    by (simp add: check_required_if_def trunk_required_if_def example_trunk_def
        trunk_create_request_def)
  have c: "check_choices trunk_choices (example_trunk\<lparr>lacp_priority := Some 32768\<rparr>)"
    by (simp add: check_choices_def trunk_choices_def example_trunk_def
        trunk_create_request_def)
  from v c show ?thesis
    by (simp add: trunk_main_def trunkcmd_def b)
qed

lemma trunk_switch_clause:
  assumes "\<not> truthy_int (lacp_priority p)" "trunk_plain p"
  shows "\<exists>a b. trunkcmd (p\<lparr>cliswitch := None\<rparr>) = Inr (a @ b) \<and>
      trunkcmd (p\<lparr>cliswitch := Some ''local''\<rparr>) = Inr (a @ [''switch-local''] @ b) \<and>
      (\<forall>v. v \<noteq> [] \<and> v \<noteq> ''local'' \<and> plain v \<longrightarrow>
         trunkcmd (p\<lparr>cliswitch := Some v\<rparr>) = Inr (a @ [''switch'', v] @ b)) \<and>
      a = ''/usr/bin/cli'' # (if quiet p then [''--quiet''] else []) @
            [''--user'', cliusername p @ '':'' @ clipassword p] \<and>
      take 2 b = [trunk_command_str (command p), ''name'']"
proof -
  have pc: "trunk_pieces (p\<lparr>cliswitch := v\<rparr>) =
      take 2 (trunk_pieces p) @
      [if truthy v then
         (if v = Some ''local'' then ([''switch-local''], True) else ([''switch'', the v], False))
       else absent] @
      drop 3 (trunk_pieces p)" for v
    by (simp add: trunk_pieces_def)
  have pl: "plain_opt v \<Longrightarrow> trunk_plain (p\<lparr>cliswitch := v\<rparr>)" for v
    using assms(2) by (simp add: trunk_plain_def)
  have cmd: "plain_opt v \<Longrightarrow>
      trunkcmd (p\<lparr>cliswitch := v\<rparr>) = Inr (argv (trunk_pieces (p\<lparr>cliswitch := v\<rparr>)))" for v
    using trunkcmd_plain[OF pl[of v]] assms(1) by simp
  let ?a = "argv (take 2 (trunk_pieces p))"
  let ?b = "concat (map piece_words (drop 3 (trunk_pieces p)))"
  have "trunkcmd (p\<lparr>cliswitch := None\<rparr>) = Inr (?a @ ?b)"
    using cmd[of None]
    by (simp add: pc argv_append piece_words_absent truthy_def plain_opt_def)
  moreover have "trunkcmd (p\<lparr>cliswitch := Some ''local''\<rparr>) = Inr (?a @ [''switch-local''] @ ?b)"
    using cmd[of "Some ''local''"]
    by (simp add: pc argv_append piece_words_Pair truthy_def plain_opt_def plain_simps word_def)
  moreover have "v \<noteq> [] \<and> v \<noteq> ''local'' \<and> plain v \<longrightarrow>
      trunkcmd (p\<lparr>cliswitch := Some v\<rparr>) = Inr (?a @ [''switch'', v] @ ?b)" for v
    using cmd[of "Some v"]
    by (simp add: pc argv_append piece_words_Pair truthy_def plain_opt_def word_def)
  moreover have "?a = ''/usr/bin/cli'' # (if quiet p then [''--quiet''] else []) @
            [''--user'', cliusername p @ '':'' @ clipassword p]"
    by (simp add: trunk_pieces_def argv_def piece_words_simps word_def)
  moreover have "take 2 ?b = [trunk_command_str (command p), ''name'']"
    by (cases "command p") (simp_all add: trunk_pieces_def piece_words_simps word_def)
  ultimately show ?thesis
    by blast
qed

text \<open>
  C3. \<open>pn_trunk\<close> turns the switch value \<open>local\<close> into the one word \<open>switch-local\<close>;
  \<open>pn_vlag\<close> has no such case and adds the two words \<open>switch local\<close>, between the
  credentials and the command in both modules. Here on the two examples of the modules
  with \<open>pn_cliswitch\<close> set to \<open>local\<close>.
\<close>

theorem vlag_switch_local_two_words:
  "vlag_build (example_vlag\<lparr>cliswitch := Some ''local''\<rparr>) =
     Inr ''/usr/bin/cli --quiet --user admin:admin  switch local vlag-create name spine-to-leaf port spine01-to-leaf peer-port spine02-to-leaf mode active-active peer-switchspine02'' \<and>
   vlagcmd (example_vlag\<lparr>cliswitch := Some ''local''\<rparr>) =
     Inr [''/usr/bin/cli'', ''--quiet'', ''--user'', ''admin:admin'', ''switch'', ''local'',
          ''vlag-create'', ''name'', ''spine-to-leaf'', ''port'', ''spine01-to-leaf'',
          ''peer-port'', ''spine02-to-leaf'', ''mode'', ''active-active'',
          ''peer-switchspine02''] \<and>
   trunkcmd (example_trunk\<lparr>cliswitch := Some ''local''\<rparr>) =
     Inr [''/usr/bin/cli'', ''--quiet'', ''--user'', ''admin:admin'', ''switch-local'',
          ''trunk-create'', ''name'', ''spine-to-leaf'', ''ports'', ''11,12,13,14'']"
proof (intro conjI)
  show "vlag_build (example_vlag\<lparr>cliswitch := Some ''local''\<rparr>) =
     Inr ''/usr/bin/cli --quiet --user admin:admin  switch local vlag-create name spine-to-leaf port spine01-to-leaf peer-port spine02-to-leaf mode active-active peer-switchspine02''"
    by (simp add: vlag_build_pieces vlag_pieces_def example_vlag_def command_line_def
        render_simps truthy_def py_str_def)
next
  have "vlag_plain (example_vlag\<lparr>cliswitch := Some ''local''\<rparr>)"
    by (simp add: example_vlag_def vlag_plain_def plain_opt_def plain_simps)
  then have "vlagcmd (example_vlag\<lparr>cliswitch := Some ''local''\<rparr>) =
      Inr (argv (vlag_pieces (example_vlag\<lparr>cliswitch := Some ''local''\<rparr>)))"
    by (rule vlagcmd_plain) (simp add: example_vlag_def)
  then show "vlagcmd (example_vlag\<lparr>cliswitch := Some ''local''\<rparr>) =
     Inr [''/usr/bin/cli'', ''--quiet'', ''--user'', ''admin:admin'', ''switch'', ''local'',
          ''vlag-create'', ''name'', ''spine-to-leaf'', ''port'', ''spine01-to-leaf'',
          ''peer-port'', ''spine02-to-leaf'', ''mode'', ''active-active'',
          ''peer-switchspine02'']"
    by (simp add: vlag_pieces_def example_vlag_def argv_def piece_words_simps word_def
        truthy_def py_str_def)
next
  have "trunk_plain (example_trunk\<lparr>cliswitch := Some ''local''\<rparr>)"
    by (simp add: example_trunk_def trunk_create_request_def trunk_plain_def plain_opt_def
        plain_simps)
  then have "trunkcmd (example_trunk\<lparr>cliswitch := Some ''local''\<rparr>) =
      Inr (argv (trunk_pieces (example_trunk\<lparr>cliswitch := Some ''local''\<rparr>)))"
    by (rule trunkcmd_plain)
       (simp add: example_trunk_def trunk_create_request_def truthy_int_def)
  then show "trunkcmd (example_trunk\<lparr>cliswitch := Some ''local''\<rparr>) =
     Inr [''/usr/bin/cli'', ''--quiet'', ''--user'', ''admin:admin'', ''switch-local'',
          ''trunk-create'', ''name'', ''spine-to-leaf'', ''ports'', ''11,12,13,14'']"
    by (simp add: trunk_pieces_def example_trunk_def trunk_create_request_def argv_def
        piece_words_simps word_def truthy_def py_str_def)
qed

end
